theory Spec2Isabelle
  imports Complex_Main "HOL-Library.Sublist"
begin

section \<open>Python strings and values\<close>

text \<open>
  A Python \<open>str\<close> is a sequence of Unicode code points: \<open>len\<close>, slicing and
  \<open>in\<close> all count code points. The model is a list of code points; an ASCII literal
  is written \<open>ascii ''...''\<close>, a literal with CJK characters as its code points.
\<close>

type_synonym pystr = "nat list"

definition ascii :: "string \<Rightarrow> pystr" where
  "ascii s = map of_char s"

text \<open>\<open>a in b\<close> on strings is the contiguous-substring test.\<close>

definition str_in :: "pystr \<Rightarrow> pystr \<Rightarrow> bool" where
  "str_in a b = sublist a b"

text \<open>\<open>str.isspace\<close> per code point, and \<open>str.strip()\<close>.\<close>

definition is_space :: "nat \<Rightarrow> bool" where
  "is_space c = (c \<in> set [9, 10, 11, 12, 13, 28, 29, 30, 31, 32, 133, 160, 5760,
       8192, 8193, 8194, 8195, 8196, 8197, 8198, 8199, 8200, 8201, 8202,
       8232, 8233, 8239, 8287, 12288])"

definition strip :: "pystr \<Rightarrow> pystr" where
  "strip s = rev (dropWhile is_space (rev (dropWhile is_space s)))"

text \<open>
  \<open>str.lower()\<close> and \<open>str.upper()\<close> are the full case mappings of the Unicode
  character database as CPython 3.11 ships it (Unicode 14.0). Inside ASCII only the
  letters A-Z and a-z change. Outside ASCII the simple mappings are kept as runs
  \<open>(first, last, step, shift)\<close>: every \<open>step\<close>-th code point from \<open>first\<close> to
  \<open>last\<close> is mapped to itself plus \<open>shift\<close>; a code point in no run is unchanged.
\<close>

definition lower_cp :: "nat \<Rightarrow> nat" where
  "lower_cp c = (if 65 \<le> c \<and> c \<le> 90 then c + 32 else c)"

definition upper_cp :: "nat \<Rightarrow> nat" where
  "upper_cp c = (if 97 \<le> c \<and> c \<le> 122 then c - 32 else c)"

fun shift_of :: "(nat \<times> nat \<times> nat \<times> int) list \<Rightarrow> nat \<Rightarrow> int" where
  "shift_of [] c = 0"
| "shift_of ((lo, hi, st, d) # t) c =
     (if lo \<le> c \<and> c \<le> hi \<and> (c - lo) mod st = 0 then d else shift_of t c)"

fun in_ranges :: "(nat \<times> nat) list \<Rightarrow> nat \<Rightarrow> bool" where
  "in_ranges [] c = False"
| "in_ranges ((lo, hi) # t) c = ((lo \<le> c \<and> c \<le> hi) \<or> in_ranges t c)"

definition lower_table :: "(nat \<times> nat \<times> nat \<times> int) list" where
  "lower_table = [
      (192, 214, 1, 32), (216, 222, 1, 32), (256, 302, 2, 1), (306, 310, 2, 1),
      (313, 327, 2, 1), (330, 374, 2, 1), (376, 376, 1, - 121), (377, 381, 2, 1),
      (385, 385, 1, 210), (386, 388, 2, 1), (390, 390, 1, 206), (391, 391, 1, 1),
      (393, 394, 1, 205), (395, 395, 1, 1), (398, 398, 1, 79), (399, 399, 1, 202),
      (400, 400, 1, 203), (401, 401, 1, 1), (403, 403, 1, 205), (404, 404, 1, 207),
      (406, 406, 1, 211), (407, 407, 1, 209), (408, 408, 1, 1), (412, 412, 1, 211),
      (413, 413, 1, 213), (415, 415, 1, 214), (416, 420, 2, 1), (422, 422, 1, 218),
      (423, 423, 1, 1), (425, 425, 1, 218), (428, 428, 1, 1), (430, 430, 1, 218),
      (431, 431, 1, 1), (433, 434, 1, 217), (435, 437, 2, 1), (439, 439, 1, 219),
      (440, 440, 1, 1), (444, 444, 1, 1), (452, 452, 1, 2), (453, 453, 1, 1),
      (455, 455, 1, 2), (456, 456, 1, 1), (458, 458, 1, 2), (459, 475, 2, 1),
      (478, 494, 2, 1), (497, 497, 1, 2), (498, 500, 2, 1), (502, 502, 1, - 97),
      (503, 503, 1, - 56), (504, 542, 2, 1), (544, 544, 1, - 130), (546, 562, 2, 1),
      (570, 570, 1, 10795), (571, 571, 1, 1), (573, 573, 1, - 163), (574, 574, 1, 10792),
      (577, 577, 1, 1), (579, 579, 1, - 195), (580, 580, 1, 69), (581, 581, 1, 71),
      (582, 590, 2, 1), (880, 882, 2, 1), (886, 886, 1, 1), (895, 895, 1, 116),
      (902, 902, 1, 38), (904, 906, 1, 37), (908, 908, 1, 64), (910, 911, 1, 63),
      (913, 929, 1, 32), (931, 939, 1, 32), (975, 975, 1, 8), (984, 1006, 2, 1),
      (1012, 1012, 1, - 60), (1015, 1015, 1, 1), (1017, 1017, 1, - 7), (1018, 1018, 1, 1),
      (1021, 1023, 1, - 130), (1024, 1039, 1, 80), (1040, 1071, 1, 32), (1120, 1152, 2, 1),
      (1162, 1214, 2, 1), (1216, 1216, 1, 15), (1217, 1229, 2, 1), (1232, 1326, 2, 1),
      (1329, 1366, 1, 48), (4256, 4293, 1, 7264), (4295, 4295, 1, 7264), (4301, 4301, 1, 7264),
      (5024, 5103, 1, 38864), (5104, 5109, 1, 8), (7312, 7354, 1, - 3008), (7357, 7359, 1, - 3008),
      (7680, 7828, 2, 1), (7838, 7838, 1, - 7615), (7840, 7934, 2, 1), (7944, 7951, 1, - 8),
      (7960, 7965, 1, - 8), (7976, 7983, 1, - 8), (7992, 7999, 1, - 8), (8008, 8013, 1, - 8),
      (8025, 8031, 2, - 8), (8040, 8047, 1, - 8), (8072, 8079, 1, - 8), (8088, 8095, 1, - 8),
      (8104, 8111, 1, - 8), (8120, 8121, 1, - 8), (8122, 8123, 1, - 74), (8124, 8124, 1, - 9),
      (8136, 8139, 1, - 86), (8140, 8140, 1, - 9), (8152, 8153, 1, - 8), (8154, 8155, 1, - 100),
      (8168, 8169, 1, - 8), (8170, 8171, 1, - 112), (8172, 8172, 1, - 7), (8184, 8185, 1, - 128),
      (8186, 8187, 1, - 126), (8188, 8188, 1, - 9), (8486, 8486, 1, - 7517), (8490, 8490, 1, - 8383),
      (8491, 8491, 1, - 8262), (8498, 8498, 1, 28), (8544, 8559, 1, 16), (8579, 8579, 1, 1),
      (9398, 9423, 1, 26), (11264, 11311, 1, 48), (11360, 11360, 1, 1), (11362, 11362, 1, - 10743),
      (11363, 11363, 1, - 3814), (11364, 11364, 1, - 10727), (11367, 11371, 2, 1), (11373, 11373, 1, - 10780),
      (11374, 11374, 1, - 10749), (11375, 11375, 1, - 10783), (11376, 11376, 1, - 10782), (11378, 11378, 1, 1),
      (11381, 11381, 1, 1), (11390, 11391, 1, - 10815), (11392, 11490, 2, 1), (11499, 11501, 2, 1),
      (11506, 11506, 1, 1), (42560, 42604, 2, 1), (42624, 42650, 2, 1), (42786, 42798, 2, 1),
      (42802, 42862, 2, 1), (42873, 42875, 2, 1), (42877, 42877, 1, - 35332), (42878, 42886, 2, 1),
      (42891, 42891, 1, 1), (42893, 42893, 1, - 42280), (42896, 42898, 2, 1), (42902, 42920, 2, 1),
      (42922, 42922, 1, - 42308), (42923, 42923, 1, - 42319), (42924, 42924, 1, - 42315), (42925, 42925, 1, - 42305),
      (42926, 42926, 1, - 42308), (42928, 42928, 1, - 42258), (42929, 42929, 1, - 42282), (42930, 42930, 1, - 42261),
      (42931, 42931, 1, 928), (42932, 42946, 2, 1), (42948, 42948, 1, - 48), (42949, 42949, 1, - 42307),
      (42950, 42950, 1, - 35384), (42951, 42953, 2, 1), (42960, 42960, 1, 1), (42966, 42968, 2, 1),
      (42997, 42997, 1, 1), (65313, 65338, 1, 32), (66560, 66599, 1, 40), (66736, 66771, 1, 40),
      (66928, 66938, 1, 39), (66940, 66954, 1, 39), (66956, 66962, 1, 39), (66964, 66965, 1, 39),
      (68736, 68786, 1, 64), (71840, 71871, 1, 32), (93760, 93791, 1, 32), (125184, 125217, 1, 34)]"

definition upper_table :: "(nat \<times> nat \<times> nat \<times> int) list" where
  "upper_table = [
      (181, 181, 1, 743), (224, 246, 1, - 32), (248, 254, 1, - 32), (255, 255, 1, 121),
      (257, 303, 2, - 1), (305, 305, 1, - 232), (307, 311, 2, - 1), (314, 328, 2, - 1),
      (331, 375, 2, - 1), (378, 382, 2, - 1), (383, 383, 1, - 300), (384, 384, 1, 195),
      (387, 389, 2, - 1), (392, 392, 1, - 1), (396, 396, 1, - 1), (402, 402, 1, - 1),
      (405, 405, 1, 97), (409, 409, 1, - 1), (410, 410, 1, 163), (414, 414, 1, 130),
      (417, 421, 2, - 1), (424, 424, 1, - 1), (429, 429, 1, - 1), (432, 432, 1, - 1),
      (436, 438, 2, - 1), (441, 441, 1, - 1), (445, 445, 1, - 1), (447, 447, 1, 56),
      (453, 453, 1, - 1), (454, 454, 1, - 2), (456, 456, 1, - 1), (457, 457, 1, - 2),
      (459, 459, 1, - 1), (460, 460, 1, - 2), (462, 476, 2, - 1), (477, 477, 1, - 79),
      (479, 495, 2, - 1), (498, 498, 1, - 1), (499, 499, 1, - 2), (501, 501, 1, - 1),
      (505, 543, 2, - 1), (547, 563, 2, - 1), (572, 572, 1, - 1), (575, 576, 1, 10815),
      (578, 578, 1, - 1), (583, 591, 2, - 1), (592, 592, 1, 10783), (593, 593, 1, 10780),
      (594, 594, 1, 10782), (595, 595, 1, - 210), (596, 596, 1, - 206), (598, 599, 1, - 205),
      (601, 601, 1, - 202), (603, 603, 1, - 203), (604, 604, 1, 42319), (608, 608, 1, - 205),
      (609, 609, 1, 42315), (611, 611, 1, - 207), (613, 613, 1, 42280), (614, 614, 1, 42308),
      (616, 616, 1, - 209), (617, 617, 1, - 211), (618, 618, 1, 42308), (619, 619, 1, 10743),
      (620, 620, 1, 42305), (623, 623, 1, - 211), (625, 625, 1, 10749), (626, 626, 1, - 213),
      (629, 629, 1, - 214), (637, 637, 1, 10727), (640, 640, 1, - 218), (642, 642, 1, 42307),
      (643, 643, 1, - 218), (647, 647, 1, 42282), (648, 648, 1, - 218), (649, 649, 1, - 69),
      (650, 651, 1, - 217), (652, 652, 1, - 71), (658, 658, 1, - 219), (669, 669, 1, 42261),
      (670, 670, 1, 42258), (837, 837, 1, 84), (881, 883, 2, - 1), (887, 887, 1, - 1),
      (891, 893, 1, 130), (940, 940, 1, - 38), (941, 943, 1, - 37), (945, 961, 1, - 32),
      (962, 962, 1, - 31), (963, 971, 1, - 32), (972, 972, 1, - 64), (973, 974, 1, - 63),
      (976, 976, 1, - 62), (977, 977, 1, - 57), (981, 981, 1, - 47), (982, 982, 1, - 54),
      (983, 983, 1, - 8), (985, 1007, 2, - 1), (1008, 1008, 1, - 86), (1009, 1009, 1, - 80),
      (1010, 1010, 1, 7), (1011, 1011, 1, - 116), (1013, 1013, 1, - 96), (1016, 1016, 1, - 1),
      (1019, 1019, 1, - 1), (1072, 1103, 1, - 32), (1104, 1119, 1, - 80), (1121, 1153, 2, - 1),
      (1163, 1215, 2, - 1), (1218, 1230, 2, - 1), (1231, 1231, 1, - 15), (1233, 1327, 2, - 1),
      (1377, 1414, 1, - 48), (4304, 4346, 1, 3008), (4349, 4351, 1, 3008), (5112, 5117, 1, - 8),
      (7296, 7296, 1, - 6254), (7297, 7297, 1, - 6253), (7298, 7298, 1, - 6244), (7299, 7300, 1, - 6242),
      (7301, 7301, 1, - 6243), (7302, 7302, 1, - 6236), (7303, 7303, 1, - 6181), (7304, 7304, 1, 35266),
      (7545, 7545, 1, 35332), (7549, 7549, 1, 3814), (7566, 7566, 1, 35384), (7681, 7829, 2, - 1),
      (7835, 7835, 1, - 59), (7841, 7935, 2, - 1), (7936, 7943, 1, 8), (7952, 7957, 1, 8),
      (7968, 7975, 1, 8), (7984, 7991, 1, 8), (8000, 8005, 1, 8), (8017, 8023, 2, 8),
      (8032, 8039, 1, 8), (8048, 8049, 1, 74), (8050, 8053, 1, 86), (8054, 8055, 1, 100),
      (8056, 8057, 1, 128), (8058, 8059, 1, 112), (8060, 8061, 1, 126), (8112, 8113, 1, 8),
      (8126, 8126, 1, - 7205), (8144, 8145, 1, 8), (8160, 8161, 1, 8), (8165, 8165, 1, 7),
      (8526, 8526, 1, - 28), (8560, 8575, 1, - 16), (8580, 8580, 1, - 1), (9424, 9449, 1, - 26),
      (11312, 11359, 1, - 48), (11361, 11361, 1, - 1), (11365, 11365, 1, - 10795), (11366, 11366, 1, - 10792),
      (11368, 11372, 2, - 1), (11379, 11379, 1, - 1), (11382, 11382, 1, - 1), (11393, 11491, 2, - 1),
      (11500, 11502, 2, - 1), (11507, 11507, 1, - 1), (11520, 11557, 1, - 7264), (11559, 11559, 1, - 7264),
      (11565, 11565, 1, - 7264), (42561, 42605, 2, - 1), (42625, 42651, 2, - 1), (42787, 42799, 2, - 1),
      (42803, 42863, 2, - 1), (42874, 42876, 2, - 1), (42879, 42887, 2, - 1), (42892, 42892, 1, - 1),
      (42897, 42899, 2, - 1), (42900, 42900, 1, 48), (42903, 42921, 2, - 1), (42933, 42947, 2, - 1),
      (42952, 42954, 2, - 1), (42961, 42961, 1, - 1), (42967, 42969, 2, - 1), (42998, 42998, 1, - 1),
      (43859, 43859, 1, - 928), (43888, 43967, 1, - 38864), (65345, 65370, 1, - 32), (66600, 66639, 1, - 40),
      (66776, 66811, 1, - 40), (66967, 66977, 1, - 39), (66979, 66993, 1, - 39), (66995, 67001, 1, - 39),
      (67003, 67004, 1, - 39), (68800, 68850, 1, - 64), (71872, 71903, 1, - 32), (93792, 93823, 1, - 32),
      (125218, 125251, 1, - 34)]"

text \<open>The code points whose capital form is more than one code point (U+00DF gives
  \<open>SS\<close>). The only such small form is that of U+0130, which is \<open>i\<close> and U+0307.\<close>

definition upper_special :: "(nat \<times> pystr) list" where
  "upper_special = [
      (223, [83, 83]), (329, [700, 78]), (496, [74, 780]), (912, [921, 776, 769]),
      (944, [933, 776, 769]), (1415, [1333, 1362]), (7830, [72, 817]), (7831, [84, 776]),
      (7832, [87, 778]), (7833, [89, 778]), (7834, [65, 702]), (8016, [933, 787]),
      (8018, [933, 787, 768]), (8020, [933, 787, 769]), (8022, [933, 787, 834]), (8064, [7944, 921]),
      (8065, [7945, 921]), (8066, [7946, 921]), (8067, [7947, 921]), (8068, [7948, 921]),
      (8069, [7949, 921]), (8070, [7950, 921]), (8071, [7951, 921]), (8072, [7944, 921]),
      (8073, [7945, 921]), (8074, [7946, 921]), (8075, [7947, 921]), (8076, [7948, 921]),
      (8077, [7949, 921]), (8078, [7950, 921]), (8079, [7951, 921]), (8080, [7976, 921]),
      (8081, [7977, 921]), (8082, [7978, 921]), (8083, [7979, 921]), (8084, [7980, 921]),
      (8085, [7981, 921]), (8086, [7982, 921]), (8087, [7983, 921]), (8088, [7976, 921]),
      (8089, [7977, 921]), (8090, [7978, 921]), (8091, [7979, 921]), (8092, [7980, 921]),
      (8093, [7981, 921]), (8094, [7982, 921]), (8095, [7983, 921]), (8096, [8040, 921]),
      (8097, [8041, 921]), (8098, [8042, 921]), (8099, [8043, 921]), (8100, [8044, 921]),
      (8101, [8045, 921]), (8102, [8046, 921]), (8103, [8047, 921]), (8104, [8040, 921]),
      (8105, [8041, 921]), (8106, [8042, 921]), (8107, [8043, 921]), (8108, [8044, 921]),
      (8109, [8045, 921]), (8110, [8046, 921]), (8111, [8047, 921]), (8114, [8122, 921]),
      (8115, [913, 921]), (8116, [902, 921]), (8118, [913, 834]), (8119, [913, 834, 921]),
      (8124, [913, 921]), (8130, [8138, 921]), (8131, [919, 921]), (8132, [905, 921]),
      (8134, [919, 834]), (8135, [919, 834, 921]), (8140, [919, 921]), (8146, [921, 776, 768]),
      (8147, [921, 776, 769]), (8150, [921, 834]), (8151, [921, 776, 834]), (8162, [933, 776, 768]),
      (8163, [933, 776, 769]), (8164, [929, 787]), (8166, [933, 834]), (8167, [933, 776, 834]),
      (8178, [8186, 921]), (8179, [937, 921]), (8180, [911, 921]), (8182, [937, 834]),
      (8183, [937, 834, 921]), (8188, [937, 921]), (64256, [70, 70]), (64257, [70, 73]),
      (64258, [70, 76]), (64259, [70, 70, 73]), (64260, [70, 70, 76]), (64261, [83, 84]),
      (64262, [83, 84]), (64275, [1348, 1350]), (64276, [1348, 1333]), (64277, [1348, 1339]),
      (64278, [1358, 1350]), (64279, [1348, 1341])]"

text \<open>
  The capital sigma U+03A3 becomes the final small sigma U+03C2 when a cased letter
  precedes it, case-ignorable code points skipped, and no cased letter follows it,
  case-ignorable code points skipped; otherwise it becomes U+03C3. \<open>cased_ranges\<close>
  lists the cased code points that are not case-ignorable: the test for a cased
  letter is only ever applied to a code point that is not case-ignorable.
\<close>

definition cased_ranges :: "(nat \<times> nat) list" where
  "cased_ranges = [
      (65, 90), (97, 122), (170, 170), (181, 181), (186, 186), (192, 214),
      (216, 246), (248, 442), (444, 447), (452, 659), (661, 687), (880, 883),
      (886, 887), (891, 893), (895, 895), (902, 902), (904, 906), (908, 908),
      (910, 929), (931, 1013), (1015, 1153), (1162, 1327), (1329, 1366), (1376, 1416),
      (4256, 4293), (4295, 4295), (4301, 4301), (4304, 4346), (4349, 4351), (5024, 5109),
      (5112, 5117), (7296, 7304), (7312, 7354), (7357, 7359), (7424, 7467), (7531, 7543),
      (7545, 7578), (7680, 7957), (7960, 7965), (7968, 8005), (8008, 8013), (8016, 8023),
      (8025, 8025), (8027, 8027), (8029, 8029), (8031, 8061), (8064, 8116), (8118, 8124),
      (8126, 8126), (8130, 8132), (8134, 8140), (8144, 8147), (8150, 8155), (8160, 8172),
      (8178, 8180), (8182, 8188), (8450, 8450), (8455, 8455), (8458, 8467), (8469, 8469),
      (8473, 8477), (8484, 8484), (8486, 8486), (8488, 8488), (8490, 8493), (8495, 8500),
      (8505, 8505), (8508, 8511), (8517, 8521), (8526, 8526), (8544, 8575), (8579, 8580),
      (9398, 9449), (11264, 11387), (11390, 11492), (11499, 11502), (11506, 11507), (11520, 11557),
      (11559, 11559), (11565, 11565), (42560, 42605), (42624, 42651), (42786, 42863), (42865, 42887),
      (42891, 42894), (42896, 42954), (42960, 42961), (42963, 42963), (42965, 42969), (42997, 42998),
      (43002, 43002), (43824, 43866), (43872, 43880), (43888, 43967), (64256, 64262), (64275, 64279),
      (65313, 65338), (65345, 65370), (66560, 66639), (66736, 66771), (66776, 66811), (66928, 66938),
      (66940, 66954), (66956, 66962), (66964, 66965), (66967, 66977), (66979, 66993), (66995, 67001),
      (67003, 67004), (68736, 68786), (68800, 68850), (71840, 71903), (93760, 93823), (119808, 119892),
      (119894, 119964), (119966, 119967), (119970, 119970), (119973, 119974), (119977, 119980), (119982, 119993),
      (119995, 119995), (119997, 120003), (120005, 120069), (120071, 120074), (120077, 120084), (120086, 120092),
      (120094, 120121), (120123, 120126), (120128, 120132), (120134, 120134), (120138, 120144), (120146, 120485),
      (120488, 120512), (120514, 120538), (120540, 120570), (120572, 120596), (120598, 120628), (120630, 120654),
      (120656, 120686), (120688, 120712), (120714, 120744), (120746, 120770), (120772, 120779), (122624, 122633),
      (122635, 122654), (125184, 125251), (127280, 127305), (127312, 127337), (127344, 127369)]"

definition ignorable_ranges :: "(nat \<times> nat) list" where
  "ignorable_ranges = [
      (39, 39), (46, 46), (58, 58), (94, 94), (96, 96), (168, 168),
      (173, 173), (175, 175), (180, 180), (183, 184), (688, 879), (884, 885),
      (890, 890), (900, 901), (903, 903), (1155, 1161), (1369, 1369), (1375, 1375),
      (1425, 1469), (1471, 1471), (1473, 1474), (1476, 1477), (1479, 1479), (1524, 1524),
      (1536, 1541), (1552, 1562), (1564, 1564), (1600, 1600), (1611, 1631), (1648, 1648),
      (1750, 1757), (1759, 1768), (1770, 1773), (1807, 1807), (1809, 1809), (1840, 1866),
      (1958, 1968), (2027, 2037), (2042, 2042), (2045, 2045), (2070, 2093), (2137, 2139),
      (2184, 2184), (2192, 2193), (2200, 2207), (2249, 2306), (2362, 2362), (2364, 2364),
      (2369, 2376), (2381, 2381), (2385, 2391), (2402, 2403), (2417, 2417), (2433, 2433),
      (2492, 2492), (2497, 2500), (2509, 2509), (2530, 2531), (2558, 2558), (2561, 2562),
      (2620, 2620), (2625, 2626), (2631, 2632), (2635, 2637), (2641, 2641), (2672, 2673),
      (2677, 2677), (2689, 2690), (2748, 2748), (2753, 2757), (2759, 2760), (2765, 2765),
      (2786, 2787), (2810, 2815), (2817, 2817), (2876, 2876), (2879, 2879), (2881, 2884),
      (2893, 2893), (2901, 2902), (2914, 2915), (2946, 2946), (3008, 3008), (3021, 3021),
      (3072, 3072), (3076, 3076), (3132, 3132), (3134, 3136), (3142, 3144), (3146, 3149),
      (3157, 3158), (3170, 3171), (3201, 3201), (3260, 3260), (3263, 3263), (3270, 3270),
      (3276, 3277), (3298, 3299), (3328, 3329), (3387, 3388), (3393, 3396), (3405, 3405),
      (3426, 3427), (3457, 3457), (3530, 3530), (3538, 3540), (3542, 3542), (3633, 3633),
      (3636, 3642), (3654, 3662), (3761, 3761), (3764, 3772), (3782, 3782), (3784, 3789),
      (3864, 3865), (3893, 3893), (3895, 3895), (3897, 3897), (3953, 3966), (3968, 3972),
      (3974, 3975), (3981, 3991), (3993, 4028), (4038, 4038), (4141, 4144), (4146, 4151),
      (4153, 4154), (4157, 4158), (4184, 4185), (4190, 4192), (4209, 4212), (4226, 4226),
      (4229, 4230), (4237, 4237), (4253, 4253), (4348, 4348), (4957, 4959), (5906, 5908),
      (5938, 5939), (5970, 5971), (6002, 6003), (6068, 6069), (6071, 6077), (6086, 6086),
      (6089, 6099), (6103, 6103), (6109, 6109), (6155, 6159), (6211, 6211), (6277, 6278),
      (6313, 6313), (6432, 6434), (6439, 6440), (6450, 6450), (6457, 6459), (6679, 6680),
      (6683, 6683), (6742, 6742), (6744, 6750), (6752, 6752), (6754, 6754), (6757, 6764),
      (6771, 6780), (6783, 6783), (6823, 6823), (6832, 6862), (6912, 6915), (6964, 6964),
      (6966, 6970), (6972, 6972), (6978, 6978), (7019, 7027), (7040, 7041), (7074, 7077),
      (7080, 7081), (7083, 7085), (7142, 7142), (7144, 7145), (7149, 7149), (7151, 7153),
      (7212, 7219), (7222, 7223), (7288, 7293), (7376, 7378), (7380, 7392), (7394, 7400),
      (7405, 7405), (7412, 7412), (7416, 7417), (7468, 7530), (7544, 7544), (7579, 7679),
      (8125, 8125), (8127, 8129), (8141, 8143), (8157, 8159), (8173, 8175), (8189, 8190),
      (8203, 8207), (8216, 8217), (8228, 8228), (8231, 8231), (8234, 8238), (8288, 8292),
      (8294, 8303), (8305, 8305), (8319, 8319), (8336, 8348), (8400, 8432), (11388, 11389),
      (11503, 11505), (11631, 11631), (11647, 11647), (11744, 11775), (11823, 11823), (12293, 12293),
      (12330, 12333), (12337, 12341), (12347, 12347), (12441, 12446), (12540, 12542), (40981, 40981),
      (42232, 42237), (42508, 42508), (42607, 42610), (42612, 42621), (42623, 42623), (42652, 42655),
      (42736, 42737), (42752, 42785), (42864, 42864), (42888, 42890), (42994, 42996), (43000, 43001),
      (43010, 43010), (43014, 43014), (43019, 43019), (43045, 43046), (43052, 43052), (43204, 43205),
      (43232, 43249), (43263, 43263), (43302, 43309), (43335, 43345), (43392, 43394), (43443, 43443),
      (43446, 43449), (43452, 43453), (43471, 43471), (43493, 43494), (43561, 43566), (43569, 43570),
      (43573, 43574), (43587, 43587), (43596, 43596), (43632, 43632), (43644, 43644), (43696, 43696),
      (43698, 43700), (43703, 43704), (43710, 43711), (43713, 43713), (43741, 43741), (43756, 43757),
      (43763, 43764), (43766, 43766), (43867, 43871), (43881, 43883), (44005, 44005), (44008, 44008),
      (44013, 44013), (64286, 64286), (64434, 64450), (65024, 65039), (65043, 65043), (65056, 65071),
      (65106, 65106), (65109, 65109), (65279, 65279), (65287, 65287), (65294, 65294), (65306, 65306),
      (65342, 65342), (65344, 65344), (65392, 65392), (65438, 65439), (65507, 65507), (65529, 65531),
      (66045, 66045), (66272, 66272), (66422, 66426), (67456, 67461), (67463, 67504), (67506, 67514),
      (68097, 68099), (68101, 68102), (68108, 68111), (68152, 68154), (68159, 68159), (68325, 68326),
      (68900, 68903), (69291, 69292), (69446, 69456), (69506, 69509), (69633, 69633), (69688, 69702),
      (69744, 69744), (69747, 69748), (69759, 69761), (69811, 69814), (69817, 69818), (69821, 69821),
      (69826, 69826), (69837, 69837), (69888, 69890), (69927, 69931), (69933, 69940), (70003, 70003),
      (70016, 70017), (70070, 70078), (70089, 70092), (70095, 70095), (70191, 70193), (70196, 70196),
      (70198, 70199), (70206, 70206), (70367, 70367), (70371, 70378), (70400, 70401), (70459, 70460),
      (70464, 70464), (70502, 70508), (70512, 70516), (70712, 70719), (70722, 70724), (70726, 70726),
      (70750, 70750), (70835, 70840), (70842, 70842), (70847, 70848), (70850, 70851), (71090, 71093),
      (71100, 71101), (71103, 71104), (71132, 71133), (71219, 71226), (71229, 71229), (71231, 71232),
      (71339, 71339), (71341, 71341), (71344, 71349), (71351, 71351), (71453, 71455), (71458, 71461),
      (71463, 71467), (71727, 71735), (71737, 71738), (71995, 71996), (71998, 71998), (72003, 72003),
      (72148, 72151), (72154, 72155), (72160, 72160), (72193, 72202), (72243, 72248), (72251, 72254),
      (72263, 72263), (72273, 72278), (72281, 72283), (72330, 72342), (72344, 72345), (72752, 72758),
      (72760, 72765), (72767, 72767), (72850, 72871), (72874, 72880), (72882, 72883), (72885, 72886),
      (73009, 73014), (73018, 73018), (73020, 73021), (73023, 73029), (73031, 73031), (73104, 73105),
      (73109, 73109), (73111, 73111), (73459, 73460), (78896, 78904), (92912, 92916), (92976, 92982),
      (92992, 92995), (94031, 94031), (94095, 94111), (94176, 94177), (94179, 94180), (110576, 110579),
      (110581, 110587), (110589, 110590), (113821, 113822), (113824, 113827), (118528, 118573), (118576, 118598),
      (119143, 119145), (119155, 119170), (119173, 119179), (119210, 119213), (119362, 119364), (121344, 121398),
      (121403, 121452), (121461, 121461), (121476, 121476), (121499, 121503), (121505, 121519), (122880, 122886),
      (122888, 122904), (122907, 122913), (122915, 122916), (122918, 122922), (123184, 123197), (123566, 123566),
      (123628, 123631), (125136, 125142), (125252, 125259), (127995, 127999), (917505, 917505), (917536, 917631),
      (917760, 917999)]"

definition case_ignorable :: "nat \<Rightarrow> bool" where
  "case_ignorable c = in_ranges ignorable_ranges c"

definition cased :: "nat \<Rightarrow> bool" where
  "cased c = in_ranges cased_ranges c"

text \<open>\<open>seen\<close> holds the code points in front of the sigma, the nearest first.\<close>

definition final_sigma :: "pystr \<Rightarrow> pystr \<Rightarrow> bool" where
  "final_sigma seen rest =
     (case dropWhile case_ignorable seen of
        [] \<Rightarrow> False
      | p # ps \<Rightarrow> cased p \<and>
          (case dropWhile case_ignorable rest of [] \<Rightarrow> True | n # ns \<Rightarrow> \<not> cased n))"

definition to_lower_full :: "nat \<Rightarrow> pystr" where
  "to_lower_full c =
     (if c < 128 then [lower_cp c]
      else if c = 304 then [105, 775]
      else [nat (int c + shift_of lower_table c)])"

fun lower_loop :: "pystr \<Rightarrow> pystr \<Rightarrow> pystr" where
  "lower_loop seen [] = []"
| "lower_loop seen (c # rest) =
     (if c = 931 then [if final_sigma seen rest then 962 else 963] else to_lower_full c)
     @ lower_loop (c # seen) rest"

definition lower :: "pystr \<Rightarrow> pystr" where
  "lower s = lower_loop [] s"

definition to_upper_full :: "nat \<Rightarrow> pystr" where
  "to_upper_full c =
     (if c < 128 then [upper_cp c]
      else case map_of upper_special c of
             Some u \<Rightarrow> u
           | None \<Rightarrow> [nat (int c + shift_of upper_table c)])"

definition upper :: "pystr \<Rightarrow> pystr" where
  "upper s = concat (map to_upper_full s)"

text \<open>\<open>str(n)\<close> for an integer, as the f-strings of the source format it.\<close>

fun str_nat :: "nat \<Rightarrow> pystr" where
  "str_nat n = (if n < 10 then [48 + n] else str_nat (n div 10) @ [48 + n mod 10])"

declare str_nat.simps [simp del]

definition str_int :: "int \<Rightarrow> pystr" where
  "str_int i = (if i < 0 then 45 # str_nat (nat (- i)) else str_nat (nat i))"

text \<open>
  The values a decoded planner response (\<open>json.loads\<close>) can carry where the source
  annotates \<open>Any\<close> or \<open>int | None\<close>: \<open>null\<close>, a boolean, an integer, a
  finite float (modelled by its rational value), a float that is \<open>NaN\<close> or an
  infinity, a string, and an array or object.
\<close>

datatype pyval = VNone | VBool bool | VInt int | VFloat rat | VNonFinite | VStr pystr | VOther

text \<open>\<open>isinstance(v, int)\<close>: \<open>bool\<close> is a subclass of \<open>int\<close> in Python.\<close>

fun isinstance_int :: "pyval \<Rightarrow> bool" where
  "isinstance_int (VInt i) = True"
| "isinstance_int (VBool b) = True"
| "isinstance_int v = False"

text \<open>The integer an \<open>int\<close> instance compares as (\<open>True\<close> is 1, \<open>False\<close> is 0).
  The source reads it only behind \<open>isinstance(v, int)\<close>; the last equation is never
  reached from there.\<close>

fun int_value :: "pyval \<Rightarrow> int" where
  "int_value (VInt i) = i"
| "int_value (VBool b) = (if b then 1 else 0)"
| "int_value v = 0"

text \<open>An integer in the specification's sense: a JSON number without fraction or
  exponent, which \<open>json.loads\<close> decodes to an \<open>int\<close> that is not a
  boolean.\<close>

fun json_integer :: "pyval \<Rightarrow> bool" where
  "json_integer (VInt i) = True"
| "json_integer v = False"

text \<open>\<open>str(v)\<close>, which the source applies to a target index that has resolved to an
  element, hence to an \<open>int\<close> instance; the text of a float, an array or an object
  is not modelled.\<close>

fun str_pyval :: "pyval \<Rightarrow> pystr" where
  "str_pyval (VInt i) = str_int i"
| "str_pyval (VBool b) = (if b then ascii ''True'' else ascii ''False'')"
| "str_pyval VNone = ascii ''None''"
| "str_pyval (VStr s) = s"
| "str_pyval (VFloat r) = []"
| "str_pyval VNonFinite = []"
| "str_pyval VOther = []"

text \<open>
  \<open>int(v)\<close>, with \<open>None\<close> where it raises. A boolean and an integer give their
  value; a finite float is truncated towards zero; \<open>NaN\<close>, an infinity, \<open>None\<close>, an
  array and an object raise. A string is read in base 10: blanks around the numeral
  are dropped, a sign may come first, the digits may be any Unicode decimal digits,
  single underscores may separate digits, and more than 4300 digits raise (the
  interpreter's default limit). Outside ASCII a blank is what \<open>str.isspace\<close> accepts;
  inside ASCII it is a tab, a line feed, a vertical tab, a form feed, a carriage
  return or a space. \<open>digit_starts\<close> lists the code points of the digit zero of every
  block of decimal digits.
\<close>

definition digit_starts :: "nat list" where
  "digit_starts = [
      48, 1632, 1776, 1984, 2406, 2534, 2662, 2790, 2918, 3046,
      3174, 3302, 3430, 3558, 3664, 3792, 3872, 4160, 4240, 6112,
      6160, 6470, 6608, 6784, 6800, 6992, 7088, 7232, 7248, 42528,
      43216, 43264, 43472, 43504, 43600, 44016, 65296, 66720, 68912, 69734,
      69872, 69942, 70096, 70384, 70736, 70864, 71248, 71360, 71472, 71904,
      72016, 72784, 73040, 73120, 92768, 92864, 93008, 120782, 120792, 120802,
      120812, 120822, 123200, 123632, 125264, 130032]"

definition decimal_value :: "nat \<Rightarrow> nat option" where
  "decimal_value c =
     (case find (\<lambda>s. s \<le> c \<and> c < s + 10) digit_starts of
        None \<Rightarrow> None
      | Some s \<Rightarrow> Some (c - s))"

datatype int_char = Blank | Digit nat | Plus | Minus | Underscore | Invalid

definition int_char :: "nat \<Rightarrow> int_char" where
  "int_char c =
     (if c \<in> set [9, 10, 11, 12, 13, 32] then Blank
      else if c = 43 then Plus
      else if c = 45 then Minus
      else if c = 95 then Underscore
      else if c < 128 then (if 48 \<le> c \<and> c \<le> 57 then Digit (c - 48) else Invalid)
      else if is_space c then Blank
      else (case decimal_value c of None \<Rightarrow> Invalid | Some d \<Rightarrow> Digit d))"

fun is_numeral_char :: "int_char \<Rightarrow> bool" where
  "is_numeral_char (Digit d) = True"
| "is_numeral_char Underscore = True"
| "is_numeral_char t = False"

fun digits_of :: "int_char list \<Rightarrow> nat list" where
  "digits_of [] = []"
| "digits_of (Digit d # ts) = d # digits_of ts"
| "digits_of (t # ts) = digits_of ts"

fun double_underscore :: "int_char list \<Rightarrow> bool" where
  "double_underscore (Underscore # Underscore # ts) = True"
| "double_underscore (t # ts) = double_underscore ts"
| "double_underscore [] = False"

definition py_int_str :: "pystr \<Rightarrow> int option" where
  "py_int_str s =
     (let chars = dropWhile (\<lambda>t. t = Blank) (map int_char s);
          negative = (chars \<noteq> [] \<and> hd chars = Minus);
          body = (if chars \<noteq> [] \<and> (hd chars = Plus \<or> hd chars = Minus) then tl chars else chars);
          numeral = takeWhile is_numeral_char body;
          rest = dropWhile is_numeral_char body;
          digits = digits_of numeral
      in if numeral = [] \<or> hd numeral = Underscore \<or> last numeral = Underscore
            \<or> double_underscore numeral \<or> \<not> list_all (\<lambda>t. t = Blank) rest
            \<or> length digits > 4300
         then None
         else Some ((if negative then - 1 else 1) * int (foldl (\<lambda>a d. 10 * a + d) 0 digits)))"

fun py_int :: "pyval \<Rightarrow> int option" where
  "py_int (VInt i) = Some i"
| "py_int (VBool b) = Some (if b then 1 else 0)"
| "py_int (VFloat r) = Some (if 0 \<le> r then \<lfloor>r\<rfloor> else \<lceil>r\<rceil>)"
| "py_int (VStr s) = py_int_str s"
| "py_int VNone = None"
| "py_int VNonFinite = None"
| "py_int VOther = None"

section \<open>UI snapshot: \<open>UIContext\<close> (dynamic\_planner.py)\<close>

text \<open>
  One element dict of the UI dump. The source reads the keys with \<open>e.get(k, default)\<close>;
  a string field holds \<open>''\<close> when the key is absent, \<open>clickable\<close> and
  \<open>scrollable\<close> hold \<open>False\<close>, and \<open>center\<close> is optional (the index builder
  defaults it to \<open>(0, 0)\<close>, the executor tests its presence).
\<close>

record element =
  e_text :: pystr
  e_content_desc :: pystr
  e_class_name :: pystr
  e_class :: pystr
  e_hint :: pystr
  e_clickable :: bool
  e_scrollable :: bool
  e_center :: "(int \<times> int) option"

record ui_context =
  elements :: "element list"
  screenshot :: "nat list option"

type_synonym indexed = "int \<times> pystr \<times> element"

definition class_lower :: "element \<Rightarrow> pystr" where
  "class_lower e =
     (if lower (e_class_name e) \<noteq> [] then lower (e_class_name e) else lower (e_class e))"

definition is_input :: "element \<Rightarrow> bool" where
  "is_input e = (str_in (ascii ''edittext'') (class_lower e) \<or> str_in (ascii ''input'') (class_lower e))"

definition center_or_origin :: "element \<Rightarrow> int \<times> int" where
  "center_or_origin e = (case e_center e of None \<Rightarrow> (0, 0) | Some c \<Rightarrow> c)"

text \<open>\<open>name[:15] + "..." + name[-10:]\<close> for a name longer than 30.\<close>

definition shorten :: "pystr \<Rightarrow> pystr" where
  "shorten name =
     (if name \<noteq> [] \<and> length name > 30
      then take 15 name @ ascii ''...'' @ drop (length name - 10) name
      else name)"

text \<open>The placeholder \<open>[\<dots>idx]\<close> of an unnamed input field; the three CJK code points
  are U+8F93 U+5165 U+6846.\<close>

definition input_placeholder :: "int \<Rightarrow> pystr" where
  "input_placeholder idx = 91 # 36755 # 20837 # 26694 # str_int idx @ [93]"

definition element_name :: "element \<Rightarrow> int \<Rightarrow> pystr" where
  "element_name e idx =
     (let text = strip (e_text e);
          desc = strip (e_content_desc e);
          name = shorten (if text \<noteq> [] then text else desc)
      in if name = [] \<and> is_input e
         then (let hint = strip (e_hint e) in if hint \<noteq> [] then hint else input_placeholder idx)
         else name)"

definition should_include :: "bool \<Rightarrow> pystr \<Rightarrow> element \<Rightarrow> bool" where
  "should_include clickable_only name e =
     (if clickable_only then name \<noteq> [] \<and> (e_clickable e \<or> is_input e) else name \<noteq> [])"

definition coord_suffix :: "pystr \<Rightarrow> int \<times> int \<Rightarrow> pystr" where
  "coord_suffix name c =
     name @ ascii ''@('' @ str_int (fst c) @ ascii '','' @ str_int (snd c) @ ascii '')''"

text \<open>
  The loop of \<open>_build_indexed_elements\<close>, with its three variables \<open>idx\<close>,
  \<open>name_counter\<close> and \<open>result\<close> threaded through.
\<close>

fun build_loop ::
  "bool \<Rightarrow> element list \<Rightarrow> int \<Rightarrow> (pystr \<rightharpoonup> int) \<Rightarrow> indexed list \<Rightarrow> indexed list" where
  "build_loop co [] idx name_counter result = result"
| "build_loop co (e # es) idx name_counter result =
     (let name = element_name e idx in
      if should_include co name e then
        (case name_counter name of
           Some c \<Rightarrow>
             build_loop co es (idx + 1) (name_counter(name \<mapsto> c + 1))
               (result @ [(idx, coord_suffix name (center_or_origin e), e)])
         | None \<Rightarrow>
             build_loop co es (idx + 1) (name_counter(name \<mapsto> 1))
               (result @ [(idx, name, e)]))
      else build_loop co es idx name_counter result)"

definition build_indexed_elements :: "ui_context \<Rightarrow> bool \<Rightarrow> indexed list" where
  "build_indexed_elements ui clickable_only =
     build_loop clickable_only (elements ui) 1 Map.empty []"

definition get_indexed_clickable_elements :: "ui_context \<Rightarrow> indexed list" where
  "get_indexed_clickable_elements ui = build_indexed_elements ui True"

definition get_indexed_all_elements :: "ui_context \<Rightarrow> indexed list" where
  "get_indexed_all_elements ui = build_indexed_elements ui False"

definition get_element_by_index :: "ui_context \<Rightarrow> pyval \<Rightarrow> element option" where
  "get_element_by_index ui index =
     (let all_indexed = build_indexed_elements ui False in
      if isinstance_int index \<and> 1 \<le> int_value index \<and> int_value index \<le> int (length all_indexed)
      then Some (snd (snd (all_indexed ! nat (int_value index - 1))))
      else None)"

definition get_all_elements :: "ui_context \<Rightarrow> pystr list" where
  "get_all_elements ui = map (\<lambda>(i, name, e). name) (get_indexed_all_elements ui)"

text \<open>
  The qualifying rule as the specification words it (section 4.1): clickable, or
  scrollable, or an input-class element, or carrying a non-empty text or label.
\<close>

definition spec_qualifies :: "element \<Rightarrow> bool" where
  "spec_qualifies e =
     (e_clickable e \<or> e_scrollable e \<or> is_input e \<or> strip (e_text e) \<noteq> [] \<or> strip (e_content_desc e) \<noteq> [])"

text \<open>
  The rule the builder applies, free of the running index: an element has a name when its
  stripped text or label is non-empty or it is an input field; with \<open>clickable_only\<close>
  it must also be clickable or an input field.
\<close>

definition has_name :: "element \<Rightarrow> bool" where
  "has_name e = (strip (e_text e) \<noteq> [] \<or> strip (e_content_desc e) \<noteq> [] \<or> is_input e)"

definition included :: "bool \<Rightarrow> element \<Rightarrow> bool" where
  "included clickable_only e =
     (if clickable_only then has_name e \<and> (e_clickable e \<or> is_input e) else has_name e)"

text \<open>
  The disambiguation rule read off the loop: an entry keeps its computed name when no
  earlier entry had that name, and otherwise carries the name with the \<open>@(x,y)\<close>
  suffix of its own centre.
\<close>

fun display_names_from :: "pystr set \<Rightarrow> indexed list \<Rightarrow> bool" where
  "display_names_from seen [] = True"
| "display_names_from seen ((i, dn, e) # r) =
     (dn = (if element_name e i \<in> seen
            then coord_suffix (element_name e i) (center_or_origin e)
            else element_name e i)
      \<and> display_names_from (insert (element_name e i) seen) r)"

text \<open>Concrete snapshots used to evaluate the definitions.\<close>

definition mk_element :: "pystr \<Rightarrow> pystr \<Rightarrow> bool \<Rightarrow> (int \<times> int) option \<Rightarrow> element" where
  "mk_element t c b ctr = \<lparr>e_text = t, e_content_desc = [], e_class_name = c, e_class = [],
      e_hint = [], e_clickable = b, e_scrollable = False, e_center = ctr\<rparr>"

definition text_view :: "pystr \<Rightarrow> int \<times> int \<Rightarrow> element" where
  "text_view t c = mk_element t (ascii ''android.widget.TextView'') False (Some c)"

text \<open>A clickable view without text or label, then three views labelled \<open>a\<close> that
  share one centre (nested views with equal bounds).\<close>

definition cex_ui :: ui_context where
  "cex_ui = \<lparr>elements =
      [mk_element [] (ascii ''android.view.View'') True (Some (5, 5)),
       text_view (ascii ''a'') (0, 0), text_view (ascii ''a'') (0, 0), text_view (ascii ''a'') (0, 0)],
     screenshot = None\<rparr>"

section \<open>Planner data: \<open>CompletedStep\<close>, \<open>NextStep\<close>, \<open>PlanningResult\<close> (dynamic\_planner.py)\<close>

text \<open>
  The \<open>parameters\<close> dict of a step, by the keys the orchestrator and the executor
  read. \<open>None\<close> is an absent key. Directions and texts are strings and explicit
  coordinates are integers, as the output format of the planner's prompt prescribes.
\<close>

record params =
  p_direction :: "pystr option"
  p_x :: "pyval option"
  p_y :: "pyval option"
  p_text :: "pystr option"
  p_content :: "pystr option"
  p_key :: "pystr option"
  p_duration_ms :: "int option"

definition no_params :: params where
  "no_params = \<lparr>p_direction = None, p_x = None, p_y = None, p_text = None,
     p_content = None, p_key = None, p_duration_ms = None\<rparr>"

record completed_step =
  cs_action :: pystr
  cs_target :: "pystr option"
  cs_description :: pystr
  cs_success :: bool
  cs_error :: "pystr option"
  cs_parameters :: params
  cs_ui_before :: "pystr list"
  cs_ui_after :: "pystr list"
  cs_ui_changed :: bool
  cs_retry_count :: int

record next_step =
  ns_action :: pystr
  ns_target :: "pystr option"
  ns_target_index :: pyval
  ns_parameters :: params
  ns_description :: pystr

record planning_result =
  pr_next_step :: "next_step option"
  pr_next_steps :: "next_step list option"
  pr_task_complete :: bool
  pr_reason :: pystr
  pr_confidence :: rat

definition has_batch_steps :: "planning_result \<Rightarrow> bool" where
  "has_batch_steps r = (case pr_next_steps r of None \<Rightarrow> False | Some ss \<Rightarrow> length ss > 0)"

definition get_all_steps :: "planning_result \<Rightarrow> next_step list" where
  "get_all_steps r =
     (if has_batch_steps r then the (pr_next_steps r)
      else (case pr_next_step r of Some s \<Rightarrow> [s] | None \<Rightarrow> []))"

text \<open>\<open>_fallback_plan\<close>; the reason is the source's message (ASCII \<open>LLM\<close> followed by
  CJK text).\<close>

definition fallback_reason :: pystr where
  "fallback_reason = [76, 76, 77, 35843, 29992, 22833, 36133, 65288, 21487, 33021, 26159,
     36895, 29575, 38480, 21046, 65289, 65292, 31561, 24453, 37325, 35797]"

definition fallback_plan :: planning_result where
  "fallback_plan = \<lparr>pr_next_step = None, pr_next_steps = None, pr_task_complete = False,
     pr_reason = fallback_reason, pr_confidence = 0\<rparr>"

section \<open>Ledger analysis (modular\_orchestrator.py)\<close>

datatype execution_state = IDLE | RUNNING | COMPLETED | FAILED

record step_result =
  sr_success :: bool
  sr_action :: pystr
  sr_target :: "pystr option"
  sr_description :: pystr
  sr_error :: "pystr option"

text \<open>\<open>TaskResult\<close> without \<open>duration_ms\<close>, which is read off the wall clock.\<close>

record task_result =
  tr_success :: bool
  tr_task :: pystr
  tr_steps_executed :: int
  tr_completed_steps :: "completed_step list"
  tr_error :: "pystr option"
  tr_state :: execution_state

text \<open>\<open>_count_consecutive_failures\<close>: the loop over \<open>reversed(completed_steps)\<close>.\<close>

fun count_failures_loop :: "completed_step list \<Rightarrow> int \<Rightarrow> int" where
  "count_failures_loop [] count = count"
| "count_failures_loop (step # rest) count =
     (if \<not> cs_success step then count_failures_loop rest (count + 1) else count)"

definition count_consecutive_failures :: "completed_step list \<Rightarrow> int" where
  "count_consecutive_failures completed_steps = count_failures_loop (rev completed_steps) 0"

fun count_no_change_loop :: "completed_step list \<Rightarrow> int \<Rightarrow> int" where
  "count_no_change_loop [] count = count"
| "count_no_change_loop (step # rest) count =
     (if cs_success step \<and> \<not> cs_ui_changed step then count_no_change_loop rest (count + 1)
      else count)"

definition count_consecutive_no_change :: "completed_step list \<Rightarrow> int" where
  "count_consecutive_no_change completed_steps = count_no_change_loop (rev completed_steps) 0"

text \<open>The default reason, U+672A U+77E5 U+9519 U+8BEF.\<close>

definition unknown_error :: pystr where
  "unknown_error = [26410, 30693, 38169, 35823]"

text \<open>\<open>step.error or '...'\<close>: \<open>None\<close> and the empty string are both falsy.\<close>

definition error_or_unknown :: "completed_step \<Rightarrow> pystr" where
  "error_or_unknown step =
     (case cs_error step of None \<Rightarrow> unknown_error
      | Some e \<Rightarrow> if e = [] then unknown_error else e)"

definition truthy_str :: "pystr option \<Rightarrow> bool" where
  "truthy_str s = (case s of None \<Rightarrow> False | Some t \<Rightarrow> t \<noteq> [])"

definition failure_reason :: "completed_step \<Rightarrow> pystr" where
  "failure_reason step =
     (if truthy_str (cs_target step)
      then ascii ''['' @ cs_action step @ ascii '':'' @ the (cs_target step) @ ascii ''] ''
             @ error_or_unknown step
      else ascii ''['' @ cs_action step @ ascii ''] '' @ error_or_unknown step)"

fun collect_failures :: "completed_step list \<Rightarrow> int \<Rightarrow> pystr list \<Rightarrow> pystr list" where
  "collect_failures [] count failures = failures"
| "collect_failures (step # rest) count failures =
     (let failures' =
            (if \<not> cs_success step \<and> int (length failures) < count
             then failures @ [failure_reason step] else failures)
      in if int (length failures') \<ge> count then failures'
         else collect_failures rest count failures')"

fun py_join :: "pystr \<Rightarrow> pystr list \<Rightarrow> pystr" where
  "py_join sep [] = []"
| "py_join sep [x] = x"
| "py_join sep (x # y # r) = x @ sep @ py_join sep (y # r)"

definition get_failure_reasons :: "completed_step list \<Rightarrow> int \<Rightarrow> pystr" where
  "get_failure_reasons completed_steps count =
     py_join (ascii ''; '') (rev (collect_failures (rev completed_steps) count []))"

definition get_opposite_direction :: "pystr \<Rightarrow> pystr" where
  "get_opposite_direction direction =
     (if direction = ascii ''up'' then ascii ''down''
      else if direction = ascii ''down'' then ascii ''up''
      else if direction = ascii ''left'' then ascii ''right''
      else if direction = ascii ''right'' then ascii ''left''
      else direction)"

definition direction_or_empty :: "params \<Rightarrow> pystr" where
  "direction_or_empty p = (case p_direction p of None \<Rightarrow> [] | Some d \<Rightarrow> d)"

definition scroll_no_change :: "completed_step \<Rightarrow> bool" where
  "scroll_no_change step =
     (cs_action step = ascii ''scroll'' \<and> cs_success step \<and> \<not> cs_ui_changed step)"

text \<open>\<open>_check_scroll_stuck\<close>: \<open>recent\<close> is \<open>completed_steps[-2:]\<close>, and
  \<open>scroll_no_change\<close> the directions of its unchanged successful scrolls.\<close>

definition check_scroll_stuck :: "completed_step list \<Rightarrow> pystr option" where
  "check_scroll_stuck completed_steps =
     (if length completed_steps < 2 then None
      else
        (let recent = drop (length completed_steps - 2) completed_steps;
             dirs = map (\<lambda>s. direction_or_empty (cs_parameters s)) (filter scroll_no_change recent)
         in if length dirs \<ge> 2 \<and> last dirs = last (butlast dirs)
            then Some (get_opposite_direction (last dirs))
            else None))"

definition is_click_or_tap :: "pystr \<Rightarrow> bool" where
  "is_click_or_tap a = (a = ascii ''click'' \<or> a = ascii ''tap'')"

text \<open>The \<open>digit_pattern\<close> of \<open>_should_convert_clicks_to_input\<close>: the ten digits, the
  full stop and the ideographic full stop U+3002.\<close>

definition digit_pattern :: "pystr list" where
  "digit_pattern = map (\<lambda>c. [c]) (ascii ''0123456789.'' @ [12290])"

definition has_digit :: "pystr \<Rightarrow> bool" where
  "has_digit desc = list_ex (\<lambda>d. str_in d desc) digit_pattern"

fun all_digit_clicks :: "next_step list \<Rightarrow> bool" where
  "all_digit_clicks [] = True"
| "all_digit_clicks (step # rest) =
     (if \<not> is_click_or_tap (ns_action step) then False
      else if \<not> has_digit (ns_description step) then False
      else all_digit_clicks rest)"

definition class_of :: "element \<Rightarrow> pystr" where
  "class_of e = lower (if e_class_name e \<noteq> [] then e_class_name e else e_class e)"

fun has_input_box :: "element list \<Rightarrow> bool" where
  "has_input_box [] = False"
| "has_input_box (elem # rest) =
     (if str_in (ascii ''edittext'') (class_of elem) \<or> str_in (ascii ''input'') (class_of elem)
      then True else has_input_box rest)"

definition should_convert_clicks_to_input :: "next_step list \<Rightarrow> ui_context \<Rightarrow> bool" where
  "should_convert_clicks_to_input steps ui =
     (if \<not> all_digit_clicks steps then False else has_input_box (elements ui))"

text \<open>\<open>_extract_digits_from_clicks\<close>: of each description, the first character that is
  in \<open>'0123456789.'\<close>, if any.\<close>

fun extract_digits_from_clicks :: "next_step list \<Rightarrow> pystr" where
  "extract_digits_from_clicks [] = []"
| "extract_digits_from_clicks (step # rest) =
     (case find (\<lambda>c. c \<in> set (ascii ''0123456789.'')) (ns_description step) of
        Some c \<Rightarrow> c # extract_digits_from_clicks rest
      | None \<Rightarrow> extract_digits_from_clicks rest)"

definition last_step_clicked_input :: "completed_step list \<Rightarrow> bool" where
  "last_step_clicked_input completed_steps =
     (if completed_steps = [] then False
      else
        (let last_step = last completed_steps in
         if \<not> (cs_action last_step = ascii ''tap'' \<or> cs_action last_step = ascii ''click'') then False
         else
           (let target = lower (case cs_target last_step of None \<Rightarrow> [] | Some t \<Rightarrow> t);
                desc = lower (cs_description last_step)
            in if str_in [36755, 20837] target \<or> str_in (ascii ''input'') target
                  \<or> str_in (ascii ''edit'') target \<or> str_in [25628, 32034] target then True
               else if str_in [36755, 20837, 26694] desc \<or> str_in [25628, 32034, 26694] desc
                  \<or> str_in (ascii ''edittext'') desc then True
               else False)))"

text \<open>\<open>_is_digit_clicks\<close>. The CJK literals: U+7B2C; U+5143 U+7D20; U+7F16 U+53F7; and the
  keywords U+70B9 U+51FB U+6570 U+5B57, U+6570 U+5B57 U+952E, U+6309 U+952E, U+5BC6 U+7801.\<close>

definition digit_keywords :: "pystr list" where
  "digit_keywords = [[28857, 20987, 25968, 23383], [25968, 23383, 38190], [25353, 38190],
     [23494, 30721], ascii ''pin'']"

fun is_digit_clicks_loop :: "next_step list \<Rightarrow> bool" where
  "is_digit_clicks_loop [] = True"
| "is_digit_clicks_loop (step # rest) =
     (if \<not> is_click_or_tap (ns_action step) then False
      else
        (let desc = lower (ns_description step) in
         if str_in [31532] desc \<and> str_in [20803, 32032] desc then False
         else if str_in [32534, 21495] desc then False
         else
           (let has_digit_keyword = list_ex (\<lambda>kw. str_in kw desc) digit_keywords;
                single_digits = filter (\<lambda>d. str_in d desc) (map (\<lambda>c. [c]) (ascii ''0123456789''))
            in if \<not> (has_digit_keyword \<or> (length desc \<le> 10 \<and> single_digits \<noteq> [])) then False
               else is_digit_clicks_loop rest)))"

definition is_digit_clicks :: "next_step list \<Rightarrow> bool" where
  "is_digit_clicks steps = (if steps = [] then False else is_digit_clicks_loop steps)"

text \<open>The step that replaces a batch of digit clicks; its description is
  U+8F93 U+5165, a space and the digits.\<close>

definition input_step :: "pystr \<Rightarrow> next_step" where
  "input_step combined_text =
     \<lparr>ns_action = ascii ''input'', ns_target = None, ns_target_index = VNone,
      ns_parameters = no_params\<lparr>p_text := Some combined_text\<rparr>,
      ns_description = [36755, 20837, 32] @ combined_text\<rparr>"

text \<open>Lines 160--176 of \<open>execute_task\<close>: the batch conversion when an input box is on
  screen.\<close>

definition convert_batch :: "planning_result \<Rightarrow> ui_context \<Rightarrow> next_step list \<Rightarrow> next_step list" where
  "convert_batch plan_result ui all_steps =
     (if has_batch_steps plan_result then
        (if should_convert_clicks_to_input all_steps ui then
           (let combined_text = extract_digits_from_clicks all_steps in
            if combined_text \<noteq> [] then [input_step combined_text] else all_steps)
         else all_steps)
      else all_steps)"

text \<open>Lines 179--191: the conversion after a click on an input field.\<close>

definition convert_after_input_click :: "completed_step list \<Rightarrow> next_step list \<Rightarrow> next_step list" where
  "convert_after_input_click completed_steps all_steps =
     (if completed_steps \<noteq> [] \<and> last_step_clicked_input completed_steps then
        (if is_digit_clicks all_steps then
           (let combined_text = extract_digits_from_clicks all_steps in
            if combined_text \<noteq> [] then [input_step combined_text] else all_steps)
         else all_steps)
      else all_steps)"

text \<open>Lines 194--202: the direction of every proposed scroll is overwritten when the
  ledger shows a stuck scroll (\<open>if reverse_dir\<close> is false for \<open>None\<close> and for the
  empty string).\<close>

definition fix_scroll_direction :: "completed_step list \<Rightarrow> next_step \<Rightarrow> next_step" where
  "fix_scroll_direction completed_steps next_step =
     (if ns_action next_step = ascii ''scroll'' then
        (case check_scroll_stuck completed_steps of
           None \<Rightarrow> next_step
         | Some reverse_dir \<Rightarrow>
             if reverse_dir \<noteq> [] then
               (if direction_or_empty (ns_parameters next_step) \<noteq> reverse_dir
                then next_step\<lparr>ns_parameters := (ns_parameters next_step)\<lparr>p_direction := Some reverse_dir\<rparr>\<rparr>
                else next_step)
             else next_step)
      else next_step)"

section \<open>Resolving a target index (\<open>execute_task\<close>, lines 209--321)\<close>

text \<open>\<open>s.replace(':', '').replace(U+FF1A, '').replace(' ', '').lower()\<close>.\<close>

definition clean :: "pystr \<Rightarrow> pystr" where
  "clean s = lower (filter (\<lambda>c. c \<noteq> 32) (filter (\<lambda>c. c \<noteq> 65306) (filter (\<lambda>c. c \<noteq> 58) s)))"

text \<open>The prefixes dropped from the cleaned target: U+5355 U+66F2, U+6B4C U+66F2,
  U+4E13 U+8F91, U+89C6 U+9891, U+97F3 U+4E50; the first that matches is removed.\<close>

definition name_prefixes :: "pystr list" where
  "name_prefixes = [[21333, 26354], [27468, 26354], [19987, 36753], [35270, 39057], [38899, 20048]]"

fun strip_prefixes :: "pystr list \<Rightarrow> pystr \<Rightarrow> pystr" where
  "strip_prefixes [] s = s"
| "strip_prefixes (p # ps) s = (if prefix p s then drop (length p) s else strip_prefixes ps s)"

text \<open>\<open>description.split(U+FF1A, 1)[1].strip()\<close> when the description contains the
  full-width colon, else \<open>None\<close>.\<close>

definition target_name_from_desc :: "pystr \<Rightarrow> pystr option" where
  "target_name_from_desc description =
     (if description \<noteq> [] \<and> 65306 \<in> set description
      then Some (strip (tl (dropWhile (\<lambda>c. c \<noteq> 65306) description)))
      else None)"

text \<open>\<open>element.get('text') or element.get('content_desc') or f"..{index}"\<close>; the
  fallback is U+5143 U+7D20 followed by the index.\<close>

definition elem_name_of :: "element \<Rightarrow> pyval \<Rightarrow> pystr" where
  "elem_name_of element index =
     (if e_text element \<noteq> [] then e_text element
      else if e_content_desc element \<noteq> [] then e_content_desc element
      else [20803, 32032] @ str_pyval index)"

text \<open>The matching loop over \<open>all_indexed\<close> with its \<open>break\<close> (score 100) and its
  three \<open>continue\<close> branches (scores 80, 70, 60).\<close>

fun rematch_loop ::
  "pystr \<Rightarrow> pystr \<Rightarrow> pystr \<Rightarrow> indexed list \<Rightarrow> (element \<times> int) option \<Rightarrow> int
     \<Rightarrow> (element \<times> int) option \<times> int" where
  "rematch_loop tn tc tk [] matched best = (matched, best)"
| "rematch_loop tn tc tk ((idx, name, elem) # rest) matched best =
     (let name_cleaned = clean name in
      if tn = name \<or> tc = name_cleaned then (Some (elem, idx), 100)
      else if str_in tn name \<or> str_in name tn then
        (if best < 80 then rematch_loop tn tc tk rest (Some (elem, idx)) 80
         else rematch_loop tn tc tk rest matched best)
      else if str_in tc name_cleaned \<or> str_in name_cleaned tc then
        (if best < 70 then rematch_loop tn tc tk rest (Some (elem, idx)) 70
         else rematch_loop tn tc tk rest matched best)
      else if tk \<noteq> [] \<and> length tk > 1
              \<and> (str_in tk name_cleaned \<or> str_in name_cleaned tk) then
        (if best < 60 then rematch_loop tn tc tk rest (Some (elem, idx)) 60
         else rematch_loop tn tc tk rest matched best)
      else rematch_loop tn tc tk rest matched best)"

definition rematch :: "ui_context \<Rightarrow> pystr \<Rightarrow> (element \<times> int) option" where
  "rematch ui tn =
     (let all_indexed = get_indexed_all_elements ui;
          target_cleaned = clean tn;
          target_keywords = strip_prefixes name_prefixes target_cleaned;
          (matched, best) = rematch_loop tn target_cleaned target_keywords all_indexed None 0
      in if matched \<noteq> None \<and> best \<ge> 60 then matched else None)"

text \<open>
  The scored matcher in the specification's words (section 4.3): exact match 100,
  substring in either direction 80, normalized substring 70, keyword overlap 60; the
  highest score is picked, the first entry among equals, and a score below 60 is not
  accepted. An exact match is equality of the names or of their normalized forms; the
  normalized form is \<open>clean\<close>, and the keyword is the normalized target without its
  prefix, when more than one character is left.
\<close>

definition match_score :: "pystr \<Rightarrow> pystr \<Rightarrow> int" where
  "match_score tn name =
     (if tn = name \<or> clean tn = clean name then 100
      else if str_in tn name \<or> str_in name tn then 80
      else if str_in (clean tn) (clean name) \<or> str_in (clean name) (clean tn) then 70
      else if length (strip_prefixes name_prefixes (clean tn)) > 1
              \<and> (str_in (strip_prefixes name_prefixes (clean tn)) (clean name)
                   \<or> str_in (clean name) (strip_prefixes name_prefixes (clean tn))) then 60
      else 0)"

fun top_score :: "pystr \<Rightarrow> indexed list \<Rightarrow> int" where
  "top_score tn [] = 0"
| "top_score tn ((idx, name, elem) # rest) = max (match_score tn name) (top_score tn rest)"

fun first_scoring :: "pystr \<Rightarrow> int \<Rightarrow> indexed list \<Rightarrow> (element \<times> int) option" where
  "first_scoring tn score [] = None"
| "first_scoring tn score ((idx, name, elem) # rest) =
     (if match_score tn name = score then Some (elem, idx) else first_scoring tn score rest)"

definition pick_highest :: "pystr \<Rightarrow> indexed list \<Rightarrow> (element \<times> int) option" where
  "pick_highest tn entries =
     (if top_score tn entries < 60 then None
      else first_scoring tn (top_score tn entries) entries)"

text \<open>The element, index and name the step is resolved to, once the lookup by index
  has found \<open>element\<close>.\<close>

definition corrected_target :: "ui_context \<Rightarrow> next_step \<Rightarrow> element \<Rightarrow> element \<times> pyval" where
  "corrected_target ui next_step element =
     (case target_name_from_desc (ns_description next_step) of
        None \<Rightarrow> (element, ns_target_index next_step)
      | Some tn \<Rightarrow>
          if tn \<noteq> [] \<and> \<not> str_in tn (elem_name_of element (ns_target_index next_step)) then
            (case rematch ui tn of
               Some (matched_element, matched_index) \<Rightarrow> (matched_element, VInt matched_index)
             | None \<Rightarrow> (element, ns_target_index next_step))
          else (element, ns_target_index next_step))"

definition resolve_step :: "ui_context \<Rightarrow> next_step \<Rightarrow> next_step" where
  "resolve_step ui next_step =
     (if ns_target_index next_step \<noteq> VNone \<and> is_click_or_tap (ns_action next_step) then
        (case get_element_by_index ui (ns_target_index next_step) of
           Some element \<Rightarrow>
             (let (element', index') = corrected_target ui next_step element;
                  center = center_or_origin element'
              in next_step\<lparr>ns_target_index := index',
                   ns_parameters := (ns_parameters next_step)
                     \<lparr>p_x := Some (VInt (fst center)), p_y := Some (VInt (snd center))\<rparr>,
                   ns_target := Some (elem_name_of element' index')\<rparr>)
         | None \<Rightarrow> next_step)
      else next_step)"

section \<open>The execution loop (\<open>ModularOrchestrator.execute_task\<close>)\<close>

text \<open>
  The external collaborators, as functions on a world state \<open>'w\<close>:
  the optional stop predicate; \<open>_get_ui_context\<close> (it catches its own exceptions);
  the \<open>try\<close> block of \<open>plan_next_step\<close>, that is the reasoning call followed by
  \<open>_parse_response\<close>, with \<open>None\<close> when an exception left the block; and
  \<open>action_executor.execute\<close> under \<open>asyncio.wait_for\<close>. The progress callback is
  \<open>None\<close>, and the stop predicate returns without raising.
\<close>

datatype exec_outcome = Returned bool "pystr option" | TimedOut | Raised pystr

record 'w env =
  max_steps :: int
  stop_check :: "('w \<Rightarrow> bool \<times> 'w) option"
  capture_ui :: "'w \<Rightarrow> ui_context \<times> 'w"
  reason_and_parse :: "pystr \<Rightarrow> ui_context \<Rightarrow> completed_step list \<Rightarrow> 'w \<Rightarrow> planning_result option \<times> 'w"
  run_executor :: "next_step \<Rightarrow> ui_context \<Rightarrow> 'w \<Rightarrow> exec_outcome \<times> 'w"

text \<open>What an iteration does, in order: snapshot captures, planner calls, sleeps (in
  milliseconds), executor calls, ledger appends (\<open>completed_steps.append\<close>) and the
  assignments to \<open>completed_steps[-1].ui_after\<close> and \<open>.ui_changed\<close> (lines 373--375),
  with the two values assigned.\<close>

datatype event =
    EvCapture
  | EvPlan
  | EvSleep nat
  | EvExecute next_step
  | EvAppend completed_step
  | EvUpdateLast "pystr list" bool

definition plan_next_step ::
  "'w env \<Rightarrow> pystr \<Rightarrow> ui_context \<Rightarrow> completed_step list \<Rightarrow> 'w \<Rightarrow> planning_result \<times> 'w" where
  "plan_next_step env task ui completed_steps w =
     (case reason_and_parse env task ui completed_steps w of
        (Some r, w') \<Rightarrow> (r, w')
      | (None, w') \<Rightarrow> (fallback_plan, w'))"

text \<open>\<open>_execute_step\<close>; the timeout message is U+6267 U+884C U+8D85 U+65F6.\<close>

definition execute_step :: "'w env \<Rightarrow> next_step \<Rightarrow> ui_context \<Rightarrow> 'w \<Rightarrow> step_result \<times> 'w" where
  "execute_step env step ui w =
     (case run_executor env step ui w of
        (Returned ok err, w') \<Rightarrow>
          (\<lparr>sr_success = ok, sr_action = ns_action step, sr_target = ns_target step,
            sr_description = ns_description step, sr_error = (if \<not> ok then err else None)\<rparr>, w')
      | (TimedOut, w') \<Rightarrow>
          (\<lparr>sr_success = False, sr_action = ns_action step, sr_target = ns_target step,
            sr_description = ns_description step, sr_error = Some [25191, 34892, 36229, 26102]\<rparr>, w')
      | (Raised msg, w') \<Rightarrow>
          (\<lparr>sr_success = False, sr_action = ns_action step, sr_target = ns_target step,
            sr_description = ns_description step, sr_error = Some msg\<rparr>, w'))"

definition record_step :: "next_step \<Rightarrow> step_result \<Rightarrow> pystr list \<Rightarrow> nat \<Rightarrow> completed_step" where
  "record_step next_step step_result ui_before step_idx =
     \<lparr>cs_action = ns_action next_step, cs_target = ns_target next_step,
      cs_description = ns_description next_step, cs_success = sr_success step_result,
      cs_error = (if \<not> sr_success step_result then sr_error step_result else None),
      cs_parameters = ns_parameters next_step,
      cs_ui_before = (if step_idx = 0 then take 20 ui_before else []),
      cs_ui_after = [], cs_ui_changed = False, cs_retry_count = 0\<rparr>"

text \<open>The \<open>for step_idx, next_step in enumerate(all_steps)\<close> loop: resolve, execute,
  sleep, append; a failed step of a batch ends the loop.\<close>

fun run_steps ::
  "'w env \<Rightarrow> bool \<Rightarrow> ui_context \<Rightarrow> nat \<Rightarrow> next_step list \<Rightarrow> completed_step list \<Rightarrow> 'w
     \<Rightarrow> completed_step list \<times> 'w \<times> event list" where
  "run_steps env batch ui step_idx [] completed_steps w = (completed_steps, w, [])"
| "run_steps env batch ui step_idx (next_step # rest) completed_steps w =
     (let resolved = resolve_step ui next_step;
          ui_before = get_all_elements ui;
          (step_result, w') = execute_step env resolved ui w;
          completed_step = record_step resolved step_result ui_before step_idx;
          evs = [EvExecute resolved, EvSleep (if batch then 100 else 500), EvAppend completed_step]
      in if \<not> sr_success step_result \<and> batch then (completed_steps @ [completed_step], w', evs)
         else (case run_steps env batch ui (Suc step_idx) rest (completed_steps @ [completed_step]) w' of
                 (completed_steps', w'', evs') \<Rightarrow> (completed_steps', w'', evs @ evs')))"

text \<open>Lines 373--375: the last record of the ledger receives the UI names after the
  batch and the UI-changed flag.\<close>

definition update_last :: "completed_step list \<Rightarrow> pystr list \<Rightarrow> bool \<Rightarrow> completed_step list" where
  "update_last completed_steps ui_after ui_changed =
     (if completed_steps \<noteq> []
      then butlast completed_steps @
             [(last completed_steps)\<lparr>cs_ui_after := take 20 ui_after, cs_ui_changed := ui_changed\<rparr>]
      else completed_steps)"

text \<open>The failure message: U+8FDE U+7EED, the count, and the source's text ending in
  \<open>": "\<close>, followed by the reasons.\<close>

definition failure_message :: "int \<Rightarrow> pystr \<Rightarrow> pystr" where
  "failure_message consecutive_failures failure_reasons =
     [36830, 32493] @ str_int consecutive_failures @
     [27425, 25805, 20316, 22833, 36133, 65292, 20219, 21153, 32456, 27490, 12290,
      22833, 36133, 21407, 22240, 58, 32] @ failure_reasons"

definition failed_result :: "pystr \<Rightarrow> completed_step list \<Rightarrow> pystr \<Rightarrow> task_result" where
  "failed_result task completed_steps msg =
     \<lparr>tr_success = False, tr_task = task, tr_steps_executed = int (length completed_steps),
      tr_completed_steps = completed_steps, tr_error = Some msg, tr_state = FAILED\<rparr>"

definition completed_result :: "pystr \<Rightarrow> completed_step list \<Rightarrow> task_result" where
  "completed_result task completed_steps =
     \<lparr>tr_success = True, tr_task = task, tr_steps_executed = int (length completed_steps),
      tr_completed_steps = completed_steps, tr_error = None, tr_state = COMPLETED\<rparr>"

text \<open>The stop message U+7528 U+6237 U+505C U+6B62 U+4E86 U+4EFB U+52A1 and the budget
  message, U+8FBE U+5230 U+6700 U+5927 U+6B65 U+6570 U+9650 U+5236 with the bound in
  parentheses.\<close>

definition stopped_message :: pystr where
  "stopped_message = [29992, 25143, 20572, 27490, 20102, 20219, 21153]"

definition max_steps_message :: "int \<Rightarrow> pystr" where
  "max_steps_message n = [36798, 21040, 26368, 22823, 27493, 25968, 38480, 21046, 32, 40] @ str_int n @ [41]"

datatype flow = Return task_result | Break | Continue "completed_step list"

text \<open>The body of the \<open>while\<close> loop after the stop check and \<open>step_count += 1\<close>.\<close>

definition iteration ::
  "'w env \<Rightarrow> pystr \<Rightarrow> completed_step list \<Rightarrow> 'w \<Rightarrow> flow \<times> 'w \<times> event list" where
  "iteration env task completed_steps w =
     (let (ui_context, w1) = capture_ui env w;
          (plan_result, w2) = plan_next_step env task ui_context completed_steps w1
      in if pr_task_complete plan_result then (Break, w2, [EvCapture, EvPlan])
         else
          (let all_steps = get_all_steps plan_result in
           if all_steps = [] then
             (if pr_confidence plan_result = 0
              then (Continue completed_steps, w2, [EvCapture, EvPlan, EvSleep 5000])
              else (Continue completed_steps, w2, [EvCapture, EvPlan]))
           else
             (let all_steps1 = convert_batch plan_result ui_context all_steps;
                  all_steps2 = convert_after_input_click completed_steps all_steps1;
                  all_steps3 = map (fix_scroll_direction completed_steps) all_steps2;
                  (completed1, w3, evs) =
                     run_steps env (has_batch_steps plan_result) ui_context 0 all_steps3 completed_steps w2;
                  (ui_after_context, w4) = capture_ui env w3;
                  ui_after = get_all_elements ui_after_context;
                  ui_changed = (set (get_all_elements ui_context) \<noteq> set ui_after);
                  completed2 = update_last completed1 ui_after ui_changed;
                  evs' = [EvCapture, EvPlan] @ evs @ [EvSleep 300, EvCapture]
                         @ (if completed1 \<noteq> [] then [EvUpdateLast (take 20 ui_after) ui_changed] else []);
                  consecutive_failures = count_consecutive_failures completed2
              in if consecutive_failures \<ge> 3
                 then (Return (failed_result task completed2
                         (failure_message consecutive_failures (get_failure_reasons completed2 3))),
                       w4, evs')
                 else (Continue completed2, w4, evs'))))"

definition check_stop :: "'w env \<Rightarrow> 'w \<Rightarrow> bool \<times> 'w" where
  "check_stop env w = (case stop_check env of None \<Rightarrow> (False, w) | Some chk \<Rightarrow> chk w)"

text \<open>The \<open>while step_count < self.max_steps\<close> loop with its \<open>else\<close> branch, and the
  success result after a \<open>break\<close>.\<close>

function execute_loop ::
  "'w env \<Rightarrow> pystr \<Rightarrow> int \<Rightarrow> completed_step list \<Rightarrow> 'w \<Rightarrow> task_result \<times> event list" where
  "execute_loop env task step_count completed_steps w =
     (if step_count < max_steps env then
        (case check_stop env w of
           (True, w0) \<Rightarrow> (failed_result task completed_steps stopped_message, [])
         | (False, w0) \<Rightarrow>
             (case iteration env task completed_steps w0 of
                (Return r, w', evs) \<Rightarrow> (r, evs)
              | (Break, w', evs) \<Rightarrow> (completed_result task completed_steps, evs)
              | (Continue completed_steps', w', evs) \<Rightarrow>
                  (case execute_loop env task (step_count + 1) completed_steps' w' of
                     (r, evs') \<Rightarrow> (r, evs @ evs'))))
      else (failed_result task completed_steps (max_steps_message (max_steps env)), []))"
  by pat_completeness auto
termination
  by (relation "measure (\<lambda>(env, task, step_count, completed_steps, w). nat (max_steps env - step_count))") auto

declare execute_loop.simps [simp del]

definition execute_task :: "'w env \<Rightarrow> pystr \<Rightarrow> 'w \<Rightarrow> task_result \<times> event list" where
  "execute_task env task w = execute_loop env task 0 [] w"

section \<open>\<open>Point\<close> (point.py) and the action executor (action\_executor.py)\<close>

record point =
  pt_x :: int
  pt_y :: int

text \<open>\<open>Point(x, y)\<close>: \<open>__post_init__\<close> raises \<open>ValueError\<close> on a negative
  coordinate. \<open>Inl\<close> carries the message of the exception.\<close>

definition Point_new :: "int \<Rightarrow> int \<Rightarrow> pystr + point" where
  "Point_new x y =
     (if x < 0 \<or> y < 0 then Inl (ascii ''Point coordinates must be non-negative'')
      else Inr \<lparr>pt_x = x, pt_y = y\<rparr>)"

datatype device_call =
    Tap point
  | Swipe point point int
  | InputText pystr
  | PressKey pystr

text \<open>The dict an \<open>_execute_*\<close> method returns, by the keys \<open>execute\<close> reads.\<close>

record action_result =
  ar_success :: bool
  ar_error :: "pystr option"
  ar_needs_recovery :: bool

text \<open>
  What the executor is given: the device controller (\<open>None\<close> when absent; a call
  returns \<open>Some msg\<close> when it raises), the screen size of the context (absent in
  the contexts the orchestrator builds), the element finder
  \<open>_find_element_by_target_async\<close> (it may consult the language model), what the
  recovery engine reads and writes (the number of entries of \<open>recovery_history\<close> for
  the failed target, the append to that history, and, when a language model is
  configured, its decoded recovery decision: a strategy and an element index, or
  \<open>None\<close> when the call or the decoding raised), and the floating-point products \<open>int(n * 0.2)\<close>, \<open>int(n * 0.3)\<close>, \<open>int(n * 0.7)\<close>,
  \<open>int(n * 0.8)\<close> as \<open>tenths n 2\<close>, ..., \<open>tenths n 8\<close>, and the message of the
  exception that \<open>int(v)\<close> raises on a value it rejects.
\<close>

record 'w executor =
  device_controller :: "(device_call \<Rightarrow> 'w \<Rightarrow> pystr option \<times> 'w) option"
  screen_width :: "int option"
  screen_height :: "int option"
  find_element_by_target :: "pystr \<Rightarrow> element list \<Rightarrow> 'w \<Rightarrow> element option \<times> 'w"
  recovery_attempts :: "next_step \<Rightarrow> 'w \<Rightarrow> nat"
  note_recovery :: "next_step \<Rightarrow> 'w \<Rightarrow> 'w"
  llm_recovery :: "(next_step \<Rightarrow> ui_context \<Rightarrow> 'w \<Rightarrow> (pystr \<times> pyval) option \<times> 'w) option"
  tenths :: "int \<Rightarrow> nat \<Rightarrow> int"
  int_error :: "pyval \<Rightarrow> pystr"

text \<open>An action's outcome: the exception message or the result dict, the world after
  it, and the device calls it issued, in order.\<close>

type_synonym 'w action_outcome = "(pystr + action_result) \<times> 'w \<times> device_call list"

definition succeeded :: action_result where
  "succeeded = \<lparr>ar_success = True, ar_error = None, ar_needs_recovery = False\<rparr>"

text \<open>One call of the device controller, followed by the method's success result.\<close>

definition device_then_success :: "'w executor \<Rightarrow> device_call \<Rightarrow> 'w \<Rightarrow> 'w action_outcome" where
  "device_then_success ex c w =
     (case device_controller ex of
        None \<Rightarrow> (Inl (ascii ''NoneType has no such attribute''), w, [])
      | Some dev \<Rightarrow>
          (case dev c w of
             (Some msg, w') \<Rightarrow> (Inl msg, w', [c])
           | (None, w') \<Rightarrow> (Inr succeeded, w', [c])))"

definition could_not_find :: "pystr option \<Rightarrow> action_result" where
  "could_not_find target =
     \<lparr>ar_success = False,
      ar_error = Some (ascii ''Could not find target: '' @ (case target of None \<Rightarrow> ascii ''None'' | Some t \<Rightarrow> t)),
      ar_needs_recovery = True\<rparr>"

text \<open>\<open>point = Point(x, y)\<close> followed by \<open>device_controller.tap(point)\<close>.\<close>

definition tap_at :: "'w executor \<Rightarrow> int \<times> int \<Rightarrow> 'w \<Rightarrow> 'w action_outcome" where
  "tap_at ex c w =
     (case Point_new (fst c) (snd c) of
        Inl msg \<Rightarrow> (Inl msg, w, [])
      | Inr point \<Rightarrow> device_then_success ex (Tap point) w)"

text \<open>\<open>_execute_tap\<close>: the coordinates of the parameters first, as
  \<open>Point(int(parameters["x"]), int(parameters["y"]))\<close>, the target text second.\<close>

definition execute_tap ::
  "'w executor \<Rightarrow> pystr option \<Rightarrow> params \<Rightarrow> element list \<Rightarrow> 'w \<Rightarrow> 'w action_outcome" where
  "execute_tap ex target parameters ui_elements w =
     (if p_x parameters \<noteq> None \<and> p_y parameters \<noteq> None then
        (case py_int (the (p_x parameters)) of
           None \<Rightarrow> (Inl (int_error ex (the (p_x parameters))), w, [])
         | Some x \<Rightarrow>
             (case py_int (the (p_y parameters)) of
                None \<Rightarrow> (Inl (int_error ex (the (p_y parameters))), w, [])
              | Some y \<Rightarrow> tap_at ex (x, y) w))
      else if truthy_str target \<and> ui_elements \<noteq> [] then
        (case find_element_by_target ex (the target) ui_elements w of
           (Some element, w') \<Rightarrow>
             (case e_center element of
                Some center \<Rightarrow> tap_at ex center w'
              | None \<Rightarrow> (Inr (could_not_find target), w', []))
         | (None, w') \<Rightarrow> (Inr (could_not_find target), w', []))
      else (Inr (could_not_find target), w, []))"

text \<open>\<open>_execute_swipe\<close>. The two points are constructed before the device is called.\<close>

definition swipe_between ::
  "'w executor \<Rightarrow> int \<times> int \<Rightarrow> int \<times> int \<Rightarrow> int \<Rightarrow> 'w \<Rightarrow> 'w action_outcome" where
  "swipe_between ex a b duration w =
     (case Point_new (fst a) (snd a) of
        Inl msg \<Rightarrow> (Inl msg, w, [])
      | Inr start \<Rightarrow>
          (case Point_new (fst b) (snd b) of
             Inl msg \<Rightarrow> (Inl msg, w, [])
           | Inr end_point \<Rightarrow> device_then_success ex (Swipe start end_point duration) w))"

definition execute_swipe :: "'w executor \<Rightarrow> params \<Rightarrow> 'w \<Rightarrow> 'w action_outcome" where
  "execute_swipe ex parameters w =
     (let width = (case screen_width ex of None \<Rightarrow> 1080 | Some v \<Rightarrow> v);
          height = (case screen_height ex of None \<Rightarrow> 1920 | Some v \<Rightarrow> v);
          direction = (case p_direction parameters of None \<Rightarrow> ascii ''down'' | Some d \<Rightarrow> d);
          duration = (case p_duration_ms parameters of None \<Rightarrow> 500 | Some d \<Rightarrow> d);
          center_x = width div 2;
          center_y = height div 2
      in if direction = ascii ''up'' then
           swipe_between ex (center_x, tenths ex height 7) (center_x, tenths ex height 3) duration w
         else if direction = ascii ''down'' then
           swipe_between ex (center_x, tenths ex height 3) (center_x, tenths ex height 7) duration w
         else if direction = ascii ''left'' then
           swipe_between ex (tenths ex width 8, center_y) (tenths ex width 2, center_y) duration w
         else if direction = ascii ''right'' then
           swipe_between ex (tenths ex width 2, center_y) (tenths ex width 8, center_y) duration w
         else (Inr \<lparr>ar_success = False, ar_error = Some (ascii ''Unknown direction: '' @ direction),
                    ar_needs_recovery = False\<rparr>, w, []))"

definition execute_scroll :: "'w executor \<Rightarrow> params \<Rightarrow> 'w \<Rightarrow> 'w action_outcome" where
  "execute_scroll ex parameters w =
     (let direction = (case p_direction parameters of None \<Rightarrow> ascii ''down'' | Some d \<Rightarrow> d)
      in execute_swipe ex (no_params\<lparr>p_direction := Some direction\<rparr>) w)"

definition execute_input :: "'w executor \<Rightarrow> params \<Rightarrow> 'w \<Rightarrow> 'w action_outcome" where
  "execute_input ex parameters w =
     (let text = (if truthy_str (p_text parameters) then the (p_text parameters)
                  else if truthy_str (p_content parameters) then the (p_content parameters)
                  else [])
      in if text = [] then
           (Inr \<lparr>ar_success = False, ar_error = Some (ascii ''No text provided in parameters''),
                 ar_needs_recovery = True\<rparr>, w, [])
         else device_then_success ex (InputText text) w)"

text \<open>The \<open>key_map\<close> of \<open>_execute_press_key\<close>; a key outside the table is passed on.\<close>

definition key_map :: "(pystr \<times> pystr) list" where
  "key_map = map (\<lambda>(k, v). (ascii k, ascii v))
     [(''ENTER'', ''ENTER''), (''BACK'', ''BACK''), (''HOME'', ''HOME''), (''MENU'', ''MENU''),
      (''RECENT'', ''RECENT''), (''RECENTS'', ''RECENT''), (''SEARCH'', ''SEARCH''),
      (''VOLUME_UP'', ''VOLUME_UP''), (''VOLUMEUP'', ''VOLUME_UP''),
      (''VOLUME_DOWN'', ''VOLUME_DOWN''), (''VOLUMEDOWN'', ''VOLUME_DOWN''),
      (''POWER'', ''POWER''), (''TAB'', ''TAB''), (''DELETE'', ''DEL''), (''BACKSPACE'', ''DEL''),
      (''DEL'', ''DEL''), (''UP'', ''UP''), (''DOWN'', ''DOWN''), (''LEFT'', ''LEFT''),
      (''RIGHT'', ''RIGHT''), (''CENTER'', ''CENTER'')]"

definition execute_press_key :: "'w executor \<Rightarrow> params \<Rightarrow> 'w \<Rightarrow> 'w action_outcome" where
  "execute_press_key ex parameters w =
     (let key = upper (case p_key parameters of None \<Rightarrow> ascii ''ENTER'' | Some k \<Rightarrow> k);
          mapped_key = (case map_of key_map key of None \<Rightarrow> key | Some m \<Rightarrow> m)
      in device_then_success ex (PressKey mapped_key) w)"

text \<open>\<open>_execute_action\<close>: the dispatch on the action name (\<open>click\<close> is an alias of
  \<open>tap\<close>). \<open>wait\<close> sleeps and calls no device.\<close>

definition execute_action ::
  "'w executor \<Rightarrow> pystr \<Rightarrow> pystr option \<Rightarrow> params \<Rightarrow> element list \<Rightarrow> 'w \<Rightarrow> 'w action_outcome" where
  "execute_action ex action target parameters ui_elements w =
     (if action = ascii ''tap'' \<or> action = ascii ''click'' then execute_tap ex target parameters ui_elements w
      else if action = ascii ''swipe'' then execute_swipe ex parameters w
      else if action = ascii ''input'' then execute_input ex parameters w
      else if action = ascii ''wait'' then (Inr succeeded, w, [])
      else if action = ascii ''scroll'' then execute_scroll ex parameters w
      else if action = ascii ''back'' then device_then_success ex (PressKey (ascii ''BACK'')) w
      else if action = ascii ''home'' then device_then_success ex (PressKey (ascii ''HOME'')) w
      else if action = ascii ''press_key'' then execute_press_key ex parameters w
      else (Inr \<lparr>ar_success = False, ar_error = Some (ascii ''Unknown action: '' @ action),
                 ar_needs_recovery = False\<rparr>, w, []))"

text \<open>
  The recovery engine. A strategy runs inside \<open>try\<close>: whatever is raised (by
  \<open>Point\<close>, by the device, by indexing) gives \<open>recovered = False\<close>.
\<close>

definition recovery_of :: "'w action_outcome \<Rightarrow> bool \<times> 'w \<times> device_call list" where
  "recovery_of outcome =
     (case outcome of
        (Inl msg, w', calls) \<Rightarrow> (False, w', calls)
      | (Inr r, w', calls) \<Rightarrow> (True, w', calls))"

text \<open>The \<open>tap_element\<close> strategy: \<open>element_index < len(ui_elements)\<close>, then
  Python's list indexing (a negative index counts from the end, one below \<open>-len\<close>
  raises), then the tap on the element's centre if it has one. An index that is not an
  \<open>int\<close> instance raises in the comparison or in the indexing, or fails the
  comparison.\<close>

definition recovery_tap_element ::
  "'w executor \<Rightarrow> pyval \<Rightarrow> element list \<Rightarrow> 'w \<Rightarrow> bool \<times> 'w \<times> device_call list" where
  "recovery_tap_element ex element_index ui_elements w =
     (if isinstance_int element_index then
        (let i = int_value element_index; n = int (length ui_elements) in
         if ui_elements \<noteq> [] \<and> i < n then
           (if i < - n then (False, w, [])
            else
              (case e_center (ui_elements ! nat (if i < 0 then n + i else i)) of
                 Some center \<Rightarrow> recovery_of (tap_at ex center w)
               | None \<Rightarrow> (False, w, [])))
         else (False, w, []))
      else (False, w, []))"

text \<open>\<open>_execute_recovery_strategy\<close>. The \<open>close_popup\<close> branch calls
  \<open>_handle_obstacles\<close> with one argument of the two it requires, which raises, or
  finds no elements: it recovers nothing and calls no device.\<close>

definition execute_recovery_strategy ::
  "'w executor \<Rightarrow> pystr \<Rightarrow> pyval \<Rightarrow> element list \<Rightarrow> 'w \<Rightarrow> bool \<times> 'w \<times> device_call list" where
  "execute_recovery_strategy ex strategy element_index ui_elements w =
     (let width = (case screen_width ex of None \<Rightarrow> 1080 | Some v \<Rightarrow> v);
          height = (case screen_height ex of None \<Rightarrow> 1920 | Some v \<Rightarrow> v)
      in if strategy = ascii ''scroll_down'' then
           recovery_of (swipe_between ex (width div 2, tenths ex height 7) (width div 2, tenths ex height 3) 500 w)
         else if strategy = ascii ''scroll_up'' then
           recovery_of (swipe_between ex (width div 2, tenths ex height 3) (width div 2, tenths ex height 7) 500 w)
         else if strategy = ascii ''swipe_left'' then
           recovery_of (swipe_between ex (tenths ex width 8, height div 2) (tenths ex width 2, height div 2) 300 w)
         else if strategy = ascii ''swipe_right'' then
           recovery_of (swipe_between ex (tenths ex width 2, height div 2) (tenths ex width 8, height div 2) 300 w)
         else if strategy = ascii ''go_back'' then
           recovery_of (device_then_success ex (PressKey (ascii ''BACK'')) w)
         else if strategy = ascii ''close_popup'' then (False, w, [])
         else if strategy = ascii ''tap_element'' \<and> element_index \<noteq> VNone then
           recovery_tap_element ex element_index ui_elements w
         else if strategy = ascii ''wait'' then (True, w, [])
         else (False, w, []))"

text \<open>\<open>_rule_based_recovery\<close>: the strategy is chosen by the number of attempts.\<close>

definition rule_based_recovery ::
  "'w executor \<Rightarrow> nat \<Rightarrow> element list \<Rightarrow> 'w \<Rightarrow> bool \<times> 'w \<times> device_call list" where
  "rule_based_recovery ex attempt_count ui_elements w =
     (let strategies_order = [ascii ''scroll_down'', ascii ''scroll_up'', ascii ''go_back''] in
      if attempt_count < length strategies_order
      then execute_recovery_strategy ex (strategies_order ! attempt_count) VNone ui_elements w
      else (False, w, []))"

text \<open>\<open>_llm_decide_recovery\<close>: the decided strategy, or the rule-based one when the
  call or the decoding raised.\<close>

definition llm_decide_recovery ::
  "'w executor \<Rightarrow> (next_step \<Rightarrow> ui_context \<Rightarrow> 'w \<Rightarrow> (pystr \<times> pyval) option \<times> 'w)
     \<Rightarrow> next_step \<Rightarrow> ui_context \<Rightarrow> nat \<Rightarrow> 'w \<Rightarrow> bool \<times> 'w \<times> device_call list" where
  "llm_decide_recovery ex llm step ui attempt_count w =
     (case llm step ui w of
        (Some (strategy, element_index), w') \<Rightarrow>
          execute_recovery_strategy ex strategy element_index (elements ui) w'
      | (None, w') \<Rightarrow> rule_based_recovery ex attempt_count (elements ui) w')"

text \<open>\<open>_autonomous_recovery\<close>, with \<open>max_recovery_attempts = 3\<close>.\<close>

definition autonomous_recovery ::
  "'w executor \<Rightarrow> next_step \<Rightarrow> ui_context \<Rightarrow> 'w \<Rightarrow> bool \<times> 'w \<times> device_call list" where
  "autonomous_recovery ex step ui w =
     (let current_attempts = recovery_attempts ex step w in
      if current_attempts \<ge> 3 then (False, w, [])
      else
        (case llm_recovery ex of
           Some llm \<Rightarrow>
             (case llm_decide_recovery ex llm step ui current_attempts w of
                (True, w', calls) \<Rightarrow> (True, note_recovery ex step w', calls)
              | (False, w', calls) \<Rightarrow>
                  (case rule_based_recovery ex current_attempts (elements ui) w' of
                     (recovered, w'', calls') \<Rightarrow> (recovered, note_recovery ex step w'', calls @ calls')))
         | None \<Rightarrow>
             (case rule_based_recovery ex current_attempts (elements ui) w of
                (recovered, w', calls) \<Rightarrow> (recovered, note_recovery ex step w', calls))))"

text \<open>
  \<open>ActionExecutorAgent.execute\<close> on the one-step context that \<open>_execute_step\<close> builds:
  the \<open>AgentResult\<close>'s \<open>success\<close> and \<open>error\<close>, the world, and the device calls
  issued by the action and by its recovery, in order.
\<close>

definition executor_execute ::
  "'w executor \<Rightarrow> next_step \<Rightarrow> ui_context \<Rightarrow> 'w \<Rightarrow> (bool \<times> pystr option) \<times> 'w \<times> device_call list" where
  "executor_execute ex step ui w =
     (if device_controller ex = None then ((False, Some (ascii ''No device controller available'')), w, [])
      else
        (case execute_action ex (ns_action step) (ns_target step) (ns_parameters step) (elements ui) w of
           (Inl msg, w', calls) \<Rightarrow> ((False, Some msg), w', calls)
         | (Inr result, w', calls) \<Rightarrow>
             if \<not> ar_success result \<and> ar_needs_recovery result then
               (case autonomous_recovery ex step ui w' of
                  (True, w'', calls') \<Rightarrow> ((True, None), w'', calls @ calls')
                | (False, w'', calls') \<Rightarrow>
                    ((False, Some (case ar_error result of None \<Rightarrow> ascii ''Unknown error'' | Some e \<Rightarrow> e)),
                     w'', calls @ calls'))
             else ((True, None), w', calls)))"



text \<open>The executor calls and the ledger appends of a trace, in order.\<close>

fun executed :: "event list \<Rightarrow> next_step list" where
  "executed [] = []"
| "executed (EvExecute s # evs) = s # executed evs"
| "executed (ev # evs) = executed evs"

fun appended :: "event list \<Rightarrow> completed_step list" where
  "appended [] = []"
| "appended (EvAppend c # evs) = c # appended evs"
| "appended (ev # evs) = appended evs"

text \<open>
  The ledger a trace leaves when it starts from the ledger \<open>L\<close>: an append adds its
  record at the end, the assignment after a batch writes the two fields of the record
  that is last at that moment, and no other event touches the ledger.
\<close>

fun replay :: "event list \<Rightarrow> completed_step list \<Rightarrow> completed_step list" where
  "replay [] L = L"
| "replay (EvAppend c # evs) L = replay evs (L @ [c])"
| "replay (EvUpdateLast after changed # evs) L =
     replay evs (if L = [] then L
                 else butlast L @ [(last L)\<lparr>cs_ui_after := after, cs_ui_changed := changed\<rparr>])"
| "replay (ev # evs) L = replay evs L"

text \<open>The record \<open>c\<close> is the one the loop builds for the executed step \<open>s\<close>: it
  carries the step's action, target, description and parameters, an empty
  \<open>ui_after\<close> and a false \<open>ui_changed\<close>.\<close>

definition records :: "completed_step \<Rightarrow> next_step \<Rightarrow> bool" where
  "records c s =
     (cs_action c = ns_action s \<and> cs_target c = ns_target s
      \<and> cs_description c = ns_description s \<and> cs_parameters c = ns_parameters s
      \<and> cs_ui_after c = [] \<and> \<not> cs_ui_changed c)"

text \<open>
  The discipline of a trace. \<open>fresh\<close> tells whether a record has been appended since
  the last planner call and has not been written to since. Every executor call is
  followed, after the sleep, by the append of the record of that very step, and no
  append occurs otherwise; the assignment after a batch occurs only when a record is
  fresh, so that the record it writes to is the last one appended in the same
  iteration, and it occurs once; a planner call and the end of the trace find no record
  fresh.
\<close>

fun in_order :: "bool \<Rightarrow> event list \<Rightarrow> bool" where
  "in_order fresh [] = (\<not> fresh)"
| "in_order fresh (EvExecute s # EvSleep d # EvAppend c # evs) = (records c s \<and> in_order True evs)"
| "in_order fresh (EvExecute s # evs) = False"
| "in_order fresh (EvAppend c # evs) = False"
| "in_order fresh (EvUpdateLast after changed # evs) = (fresh \<and> in_order False evs)"
| "in_order fresh (EvPlan # evs) = (\<not> fresh \<and> in_order False evs)"
| "in_order fresh (EvCapture # evs) = in_order fresh evs"
| "in_order fresh (EvSleep d # evs) = in_order fresh evs"

section \<open>Concrete collaborators for evaluating the loop\<close>

definition empty_ui :: ui_context where
  "empty_ui = \<lparr>elements = [], screenshot = None\<rparr>"

definition simple_step :: "pystr \<Rightarrow> params \<Rightarrow> pystr \<Rightarrow> next_step" where
  "simple_step a p d = \<lparr>ns_action = a, ns_target = None, ns_target_index = VNone,
     ns_parameters = p, ns_description = d\<rparr>"

definition single_plan :: "next_step \<Rightarrow> planning_result" where
  "single_plan s = \<lparr>pr_next_step = Some s, pr_next_steps = None, pr_task_complete = False,
     pr_reason = [], pr_confidence = 4 / 5\<rparr>"

definition batch_plan :: "next_step list \<Rightarrow> planning_result" where
  "batch_plan ss = \<lparr>pr_next_step = None, pr_next_steps = Some ss, pr_task_complete = False,
     pr_reason = [], pr_confidence = 4 / 5\<rparr>"

definition complete_plan :: planning_result where
  "complete_plan = \<lparr>pr_next_step = None, pr_next_steps = None, pr_task_complete = True,
     pr_reason = [], pr_confidence = 4 / 5\<rparr>"

text \<open>A scripted environment: the world counts the planner calls made so far; the
  snapshot, the stop predicate and the planner's answer are functions of that count,
  the executor's outcome is a function of the step.\<close>

definition scripted_env ::
  "int \<Rightarrow> (nat \<Rightarrow> bool) option \<Rightarrow> (nat \<Rightarrow> ui_context) \<Rightarrow> (nat \<Rightarrow> planning_result option)
     \<Rightarrow> (next_step \<Rightarrow> exec_outcome) \<Rightarrow> nat env" where
  "scripted_env n stop ui plans outcome =
     \<lparr>max_steps = n,
      stop_check = (case stop of None \<Rightarrow> None | Some p \<Rightarrow> Some (\<lambda>w. (p w, w))),
      capture_ui = (\<lambda>w. (ui w, w)),
      reason_and_parse = (\<lambda>task u completed w. (plans w, Suc w)),
      run_executor = (\<lambda>s u w. (outcome s, w))\<rparr>"

definition back_step :: next_step where
  "back_step = simple_step (ascii ''back'') no_params (ascii ''go back'')"

text \<open>Every planner call proposes \<open>back\<close>, and every execution fails.\<close>

definition failing_env :: "nat env" where
  "failing_env = scripted_env 10 None (\<lambda>w. empty_ui) (\<lambda>w. Some (single_plan back_step))
      (\<lambda>s. Returned False (Some (ascii ''boom'')))"

definition failed_back :: completed_step where
  "failed_back = \<lparr>cs_action = ascii ''back'', cs_target = None, cs_description = ascii ''go back'',
      cs_success = False, cs_error = Some (ascii ''boom''), cs_parameters = no_params,
      cs_ui_before = [], cs_ui_after = [], cs_ui_changed = False, cs_retry_count = 0\<rparr>"

text \<open>The ledger record of a successful \<open>back\<close> on an empty screen.\<close>

definition ok_back :: completed_step where
  "ok_back = \<lparr>cs_action = ascii ''back'', cs_target = None, cs_description = ascii ''go back'',
      cs_success = True, cs_error = None, cs_parameters = no_params,
      cs_ui_before = [], cs_ui_after = [], cs_ui_changed = False, cs_retry_count = 0\<rparr>"

text \<open>The stop predicate turns true once the planner has been called.\<close>

definition stopping_env :: "nat env" where
  "stopping_env = scripted_env 10 (Some (\<lambda>w. 1 \<le> w)) (\<lambda>w. empty_ui) (\<lambda>w. Some (single_plan back_step))
      (\<lambda>s. Returned True None)"

text \<open>A budget of one iteration; the first reasoning call fails, a second one would
  report the task complete.\<close>

definition flaky_env :: "nat env" where
  "flaky_env = scripted_env 1 None (\<lambda>w. empty_ui) (\<lambda>w. if w = 0 then None else Some complete_plan)
      (\<lambda>s. Returned True None)"

definition ui_a :: ui_context where
  "ui_a = \<lparr>elements = [text_view (ascii ''a'') (10, 20)], screenshot = None\<rparr>"

text \<open>The screen changes once the first step has been planned.\<close>

definition changing_env :: "nat env" where
  "changing_env = scripted_env 10 None (\<lambda>w. if w = 0 then empty_ui else ui_a)
      (\<lambda>w. if w = 0 then Some (single_plan back_step) else Some complete_plan)
      (\<lambda>s. Returned True None)"

text \<open>A successful scroll down that left the screen unchanged, and a planner that
  proposes to scroll down once more.\<close>

definition scroll_step :: "pystr \<Rightarrow> next_step" where
  "scroll_step d = simple_step (ascii ''scroll'') (no_params\<lparr>p_direction := Some d\<rparr>) (ascii ''scroll on'')"

definition stuck_down :: completed_step where
  "stuck_down = \<lparr>cs_action = ascii ''scroll'', cs_target = None, cs_description = ascii ''scroll on'',
      cs_success = True, cs_error = None, cs_parameters = no_params\<lparr>p_direction := Some (ascii ''down'')\<rparr>,
      cs_ui_before = [], cs_ui_after = [], cs_ui_changed = False, cs_retry_count = 0\<rparr>"

definition scrolling_env :: "nat env" where
  "scrolling_env = scripted_env 10 None (\<lambda>w. empty_ui) (\<lambda>w. Some (single_plan (scroll_step (ascii ''down''))))
      (\<lambda>s. Returned True None)"

text \<open>A scroll that names no direction, and the ledger record of such a scroll that
  succeeded and left the screen unchanged.\<close>

definition bare_scroll :: next_step where
  "bare_scroll = simple_step (ascii ''scroll'') no_params (ascii ''scroll on'')"

definition stuck_bare :: completed_step where
  "stuck_bare = \<lparr>cs_action = ascii ''scroll'', cs_target = None, cs_description = ascii ''scroll on'',
      cs_success = True, cs_error = None, cs_parameters = no_params,
      cs_ui_before = [], cs_ui_after = [], cs_ui_changed = False, cs_retry_count = 0\<rparr>"











text \<open>A device that accepts every call, no screen size in the context, a finder that
  finds nothing, no language model and an empty recovery history, and exact tenths.\<close>

definition plain_executor :: "nat executor" where
  "plain_executor = \<lparr>device_controller = Some (\<lambda>c w. (None, w)), screen_width = None,
     screen_height = None, find_element_by_target = (\<lambda>t es w. (None, w)),
     recovery_attempts = (\<lambda>s w. 0), note_recovery = (\<lambda>s w. w), llm_recovery = None,
     tenths = (\<lambda>n k. n * int k div 10), int_error = (\<lambda>v. ascii ''int() rejects the value'')\<rparr>"

text \<open>A screen with one button, a click that names an index and also carries explicit
  coordinates, and a click on a target that is not on the screen.\<close>

definition ok_button :: element where
  "ok_button = mk_element (ascii ''OK'') (ascii ''android.widget.Button'') True (Some (100, 200))"

definition ok_ui :: ui_context where
  "ok_ui = \<lparr>elements = [ok_button], screenshot = None\<rparr>"

definition click_at :: "pyval \<Rightarrow> pyval \<Rightarrow> pyval \<Rightarrow> next_step" where
  "click_at index x y = \<lparr>ns_action = ascii ''click'', ns_target = None, ns_target_index = index,
     ns_parameters = no_params\<lparr>p_x := Some x, p_y := Some y\<rparr>, ns_description = ascii ''click the button''\<rparr>"


text \<open>A screen with a Cancel and an OK button, and a click that carries the explicit
  coordinates (5, 5) and the index 1 while its description names, after the full-width
  colon U+FF1A, the button OK.\<close>

definition cancel_button :: element where
  "cancel_button = mk_element (ascii ''Cancel'') (ascii ''android.widget.Button'') True (Some (10, 20))"

definition two_ui :: ui_context where
  "two_ui = \<lparr>elements = [cancel_button, ok_button], screenshot = None\<rparr>"

definition renamed_click :: next_step where
  "renamed_click = \<lparr>ns_action = ascii ''click'', ns_target = None, ns_target_index = VInt 1,
     ns_parameters = no_params\<lparr>p_x := Some (VInt 5), p_y := Some (VInt 5)\<rparr>,
     ns_description = ascii ''click element 1'' @ [65306] @ ascii ''OK''\<rparr>"




section \<open>The snapshot index\<close>

lemma input_placeholder_nonempty: "input_placeholder idx \<noteq> []"
  by (simp add: input_placeholder_def)

lemma shorten_empty_iff: "shorten s = [] \<longleftrightarrow> s = []"
  by (auto simp: shorten_def)

lemma element_name_nonempty_iff: "element_name e idx \<noteq> [] \<longleftrightarrow> has_name e"
  by (auto simp: element_name_def has_name_def Let_def shorten_empty_iff input_placeholder_nonempty)

lemma should_include_included: "should_include co (element_name e idx) e = included co e"
  by (simp add: should_include_def included_def element_name_nonempty_iff)

lemma build_loop_indices:
  "map fst (build_loop co es idx nc result) =
     map fst result @ map (\<lambda>k. idx + int k) [0..<length (filter (included co) es)]"
proof (induction es arbitrary: idx nc result)
  case Nil
  then show ?case by simp
next
  case (Cons e es)
  show ?case
  proof (cases "included co e")
    case True
    have shift: "map (\<lambda>k. idx + int k) [0..<Suc n] = idx # map (\<lambda>k. idx + 1 + int k) [0..<n]" for n
      by (simp only: upt_conv_Cons[of 0 "Suc n"] map_Suc_upt[symmetric]) (simp add: comp_def)
    show ?thesis using True
      by (simp add: should_include_included Let_def Cons.IH shift del: upt_Suc split: option.split)
  next
    case False
    then show ?thesis by (simp add: should_include_included Let_def Cons.IH)
  qed
qed

lemma build_loop_elements:
  "map (snd \<circ> snd) (build_loop co es idx nc result) =
     map (snd \<circ> snd) result @ filter (included co) es"
  by (induction es arbitrary: idx nc result)
     (simp_all add: should_include_included Let_def split: option.split)

lemma build_loop_acc:
  "build_loop co es idx nc result = result @ build_loop co es idx nc []"
proof (induction es arbitrary: idx nc result)
  case Nil
  then show ?case by simp
next
  case (Cons e es)
  note IH = Cons.IH
  show ?case
    by (simp add: Let_def split: option.split)
       (metis IH append.assoc)
qed

lemma build_loop_names:
  "display_names_from (dom nc) (build_loop co es idx nc [])"
proof (induction es arbitrary: idx nc)
  case Nil
  then show ?case by simp
next
  case (Cons e es)
  let ?n = "element_name e idx"
  show ?case
  proof (cases "should_include co ?n e")
    case False
    then show ?thesis using Cons.IH by (simp add: Let_def)
  next
    case True
    show ?thesis
    proof (cases "nc ?n")
      case None
      have "display_names_from (dom (nc(?n \<mapsto> 1))) (build_loop co es (idx + 1) (nc(?n \<mapsto> 1)) [])"
        by (rule Cons.IH)
      then show ?thesis using True None
        by (simp add: Let_def build_loop_acc[of co es "idx + 1" _ "[x]" for x] domIff)
    next
      case (Some c)
      have "display_names_from (dom (nc(?n \<mapsto> c + 1))) (build_loop co es (idx + 1) (nc(?n \<mapsto> c + 1)) [])"
        by (rule Cons.IH)
      moreover have "insert ?n (dom nc) = dom nc" using Some by auto
      ultimately show ?thesis using True Some
        by (simp add: Let_def build_loop_acc[of co es "idx + 1" _ "[x]" for x] domIff)
    qed
  qed
qed

lemma cex_build:
  "build_indexed_elements cex_ui False =
    [(1, ascii ''a'', text_view (ascii ''a'') (0, 0)),
     (2, ascii ''a@(0,0)'', text_view (ascii ''a'') (0, 0)),
     (3, ascii ''a@(0,0)'', text_view (ascii ''a'') (0, 0))]"
  by (simp add: build_indexed_elements_def cex_ui_def text_view_def mk_element_def element_name_def
      should_include_def is_input_def class_lower_def lower_def to_lower_full_def lower_cp_def str_in_def
      sublist_Cons_right strip_def is_space_def shorten_def ascii_def Let_def coord_suffix_def
      center_or_origin_def str_int_def str_nat.simps)

text \<open>
  C1, as the specification states it, fails on \<open>cex_ui\<close>: the clickable view without
  a label qualifies by the specification's rule but gets no index (three indices for four
  qualifying elements), and the second and third \<open>a\<close> both display as \<open>a@(0,0)\<close>.
\<close>

theorem build_index_counterexample:
  "map fst (build_indexed_elements cex_ui False) \<noteq>
      map (\<lambda>k. 1 + int k) [0..<length (filter spec_qualifies (elements cex_ui))]
   \<and> \<not> distinct (map (fst \<circ> snd) (build_indexed_elements cex_ui False))"
  unfolding cex_build
  by (simp add: cex_ui_def text_view_def mk_element_def spec_qualifies_def)

text \<open>
  C1 (amended): for every snapshot and both values of \<open>clickable_only\<close>, the index
  builder returns the elements it includes, in encounter order, numbered 1, 2, ..., N,
  where N counts the included elements: those whose stripped text or label is non-empty
  or that are input fields and, with \<open>clickable_only\<close>, that are also clickable or
  input fields. An entry displays its computed name when no earlier entry had that
  name, and the name with its own \<open>@(x,y)\<close> suffix otherwise.
\<close>

theorem build_index_amended:
  "map fst (build_indexed_elements ui co) =
      map (\<lambda>k. 1 + int k) [0..<length (filter (included co) (elements ui))]
   \<and> map (snd \<circ> snd) (build_indexed_elements ui co) = filter (included co) (elements ui)
   \<and> display_names_from {} (build_indexed_elements ui co)"
  using build_loop_indices[of co "elements ui" 1 Map.empty "[]"]
        build_loop_elements[of co "elements ui" 1 Map.empty "[]"]
        build_loop_names[of Map.empty co "elements ui" 1]
  by (simp add: build_indexed_elements_def)

theorem build_index_amended_witness:
  "map fst (build_indexed_elements cex_ui False) = [1, 2, 3]
   \<and> map (snd \<circ> snd) (build_indexed_elements cex_ui False) =
       [text_view (ascii ''a'') (0, 0), text_view (ascii ''a'') (0, 0), text_view (ascii ''a'') (0, 0)]"
  using build_index_amended[of cex_ui False]
  by (simp add: cex_ui_def text_view_def mk_element_def included_def has_name_def is_input_def
      class_lower_def lower_def to_lower_full_def lower_cp_def str_in_def sublist_Cons_right strip_def is_space_def
      ascii_def)

lemma indexed_fsts:
  "map fst (get_indexed_all_elements ui) =
     map (\<lambda>k. 1 + int k) [0..<length (filter (included False) (elements ui))]"
  using build_loop_indices[of False "elements ui" 1 Map.empty "[]"]
  by (simp add: get_indexed_all_elements_def build_indexed_elements_def)

lemma indexed_position:
  assumes "k < length (get_indexed_all_elements ui)"
  shows "fst (get_indexed_all_elements ui ! k) = 1 + int k"
proof -
  have len: "length (get_indexed_all_elements ui) = length (filter (included False) (elements ui))"
    using arg_cong[OF indexed_fsts[of ui], of length] by simp
  have "fst (get_indexed_all_elements ui ! k) = map fst (get_indexed_all_elements ui) ! k"
    using assms by simp
  also have "\<dots> = 1 + int k" unfolding indexed_fsts using assms len by simp
  finally show ?thesis .
qed

text \<open>
  C2, as the specification states it, fails: the index \<open>True\<close> is a boolean, not an
  integer, yet the lookup answers it with the first indexed element, as it answers the
  index 1.
\<close>

theorem boolean_index_counterexample:
  "\<not> json_integer (VBool True)
   \<and> get_element_by_index cex_ui (VBool True) = Some (text_view (ascii ''a'') (0, 0))
   \<and> get_element_by_index cex_ui (VBool True) = get_element_by_index cex_ui (VInt 1)"
  by (simp add: get_element_by_index_def cex_build)

text \<open>
  C2 (amended): for every snapshot and every index that is not an instance of Python's
  \<open>int\<close>, or is below 1, or is above the number N of indexed entries,
  \<open>get_element_by_index\<close> returns \<open>None\<close>; the function is total (the list is
  accessed only inside the bounds), so it neither raises nor falls back to entry 1. The
  booleans are instances of \<open>int\<close>: \<open>True\<close> is looked up as the index 1 and
  \<open>False\<close>, being 0, returns \<open>None\<close>. An index inside 1..N returns the element
  of the entry with that index.
\<close>

theorem get_element_by_index_out_of_range:
  "(\<not> isinstance_int index \<or> int_value index < 1
      \<or> int (length (get_indexed_all_elements ui)) < int_value index
     \<longrightarrow> get_element_by_index ui index = None)
   \<and> (isinstance_int index \<and> 1 \<le> int_value index
      \<and> int_value index \<le> int (length (get_indexed_all_elements ui))
     \<longrightarrow> get_element_by_index ui index
          = Some (snd (snd (get_indexed_all_elements ui ! nat (int_value index - 1))))
        \<and> fst (get_indexed_all_elements ui ! nat (int_value index - 1)) = int_value index)
   \<and> get_element_by_index ui (VBool True) = get_element_by_index ui (VInt 1)
   \<and> get_element_by_index ui (VBool False) = None
   \<and> isinstance_int (VBool b) \<and> isinstance_int (VInt i)
   \<and> \<not> isinstance_int VNone \<and> \<not> isinstance_int (VFloat r) \<and> \<not> isinstance_int VNonFinite
   \<and> \<not> isinstance_int (VStr s) \<and> \<not> isinstance_int VOther"
proof -
  have idx: "fst (get_indexed_all_elements ui ! nat (int_value index - 1)) = int_value index"
    if "1 \<le> int_value index" "int_value index \<le> int (length (get_indexed_all_elements ui))"
    using indexed_position[of "nat (int_value index - 1)" ui] that by simp
  show ?thesis
    using idx by (auto simp: get_element_by_index_def get_indexed_all_elements_def Let_def)
qed

theorem get_element_by_index_out_of_range_witness:
  "get_element_by_index cex_ui (VInt 4) = None
   \<and> get_element_by_index cex_ui (VInt 0) = None
   \<and> get_element_by_index cex_ui (VInt (- 1)) = None
   \<and> get_element_by_index cex_ui (VStr (ascii ''1'')) = None
   \<and> get_element_by_index cex_ui (VFloat 1) = None
   \<and> get_element_by_index cex_ui VOther = None
   \<and> get_element_by_index cex_ui (VBool False) = None
   \<and> get_element_by_index cex_ui (VInt 3) = Some (text_view (ascii ''a'') (0, 0))"
  using get_element_by_index_out_of_range[of "VInt 4" cex_ui]
        get_element_by_index_out_of_range[of "VInt 0" cex_ui]
        get_element_by_index_out_of_range[of "VInt (- 1)" cex_ui]
        get_element_by_index_out_of_range[of "VStr (ascii ''1'')" cex_ui]
        get_element_by_index_out_of_range[of "VFloat 1" cex_ui]
        get_element_by_index_out_of_range[of VOther cex_ui]
        get_element_by_index_out_of_range[of "VInt 3" cex_ui]
  by (simp add: get_indexed_all_elements_def cex_build)

section \<open>Failure streaks\<close>


lemma count_failures_loop_ge: "count \<le> count_failures_loop xs count"
proof (induction xs arbitrary: count)
  case Nil
  then show ?case by simp
next
  case (Cons x xs)
  have "count + 1 \<le> count_failures_loop xs (count + 1)" by (rule Cons.IH)
  then show ?case by simp
qed

lemma count_three_failures:
  assumes "\<not> cs_success s1" "\<not> cs_success s2" "\<not> cs_success s3"
  shows "3 \<le> count_consecutive_failures (pre @ [s1, s2, s3])"
  using assms count_failures_loop_ge[of 3 "rev pre"]
  by (simp add: count_consecutive_failures_def)

lemma reasons_three_failures:
  assumes "\<not> cs_success s1" "\<not> cs_success s2" "\<not> cs_success s3"
  shows "get_failure_reasons (pre @ [s1, s2, s3]) 3 =
           failure_reason s1 @ ascii ''; '' @ failure_reason s2 @ ascii ''; '' @ failure_reason s3"
  using assms by (simp add: get_failure_reasons_def Let_def)

lemma iteration_continue:
  assumes "iteration env task L w = (Continue L', w', evs)"
    and "count_consecutive_failures L < 3"
  shows "count_consecutive_failures L' < 3"
  using assms
  by (auto simp: iteration_def Let_def split: prod.splits if_splits)

lemma iteration_return:
  assumes "iteration env task L w = (Return r, w', evs)"
  shows "r = failed_result task (tr_completed_steps r)
               (failure_message (count_consecutive_failures (tr_completed_steps r))
                  (get_failure_reasons (tr_completed_steps r) 3))"
  using assms
  by (auto simp: iteration_def Let_def failed_result_def split: prod.splits if_splits)

lemma execute_loop_failures:
  assumes "count_consecutive_failures L < 3"
    and "execute_loop env task sc L w = (r, evs)"
    and "3 \<le> count_consecutive_failures (tr_completed_steps r)"
  shows "r = failed_result task (tr_completed_steps r)
               (failure_message (count_consecutive_failures (tr_completed_steps r))
                  (get_failure_reasons (tr_completed_steps r) 3))"
  using assms
proof (induction env task sc L w arbitrary: r evs rule: execute_loop.induct)
  case (1 env task step_count completed_steps w)
  note [simp] = execute_loop.simps[of env task step_count completed_steps w]
  show ?case
  proof (cases "step_count < max_steps env")
    case False
    with "1.prems" show ?thesis
      by (auto simp: failed_result_def)
  next
    case True
    obtain stop w0 where cs: "check_stop env w = (stop, w0)" by (cases "check_stop env w")
    show ?thesis
    proof (cases stop)
      case True
      with \<open>step_count < max_steps env\<close> cs "1.prems" show ?thesis
        by (auto simp: failed_result_def)
    next
      case False
      obtain f w' ev where it: "iteration env task completed_steps w0 = (f, w', ev)"
        by (cases "iteration env task completed_steps w0")
      show ?thesis
      proof (cases f)
        case (Return r')
        with \<open>step_count < max_steps env\<close> cs False it "1.prems" have "r = r'" by simp
        with iteration_return[of env task completed_steps w0 r' w' ev] it Return show ?thesis by simp
      next
        case Break
        with \<open>step_count < max_steps env\<close> cs False it "1.prems" show ?thesis
          by (auto simp: completed_result_def)
      next
        case (Continue L')
        obtain r2 ev2 where rec: "execute_loop env task (step_count + 1) L' w' = (r2, ev2)"
          by (cases "execute_loop env task (step_count + 1) L' w'")
        with \<open>step_count < max_steps env\<close> cs False it Continue "1.prems" have "r = r2" by simp
        have cnt: "count_consecutive_failures L' < 3"
          using iteration_continue[of env task completed_steps w0 L' w' ev] it Continue "1.prems"(1) by simp
        have stopF: "stop = False" using False by simp
        have ge: "3 \<le> count_consecutive_failures (tr_completed_steps r2)"
          using "1.prems"(3) \<open>r = r2\<close> by simp
        show ?thesis
          using "1.IH"[OF \<open>step_count < max_steps env\<close> cs[symmetric] stopF it[symmetric] Continue refl cnt rec ge]
            \<open>r = r2\<close> by simp
      qed
    qed
  qed
qed


text \<open>
  C4: whenever the ledger of a run's result ends with three failed steps, the result is
  Failed and its error message ends with the three steps' reasons, in execution order,
  joined by \<open>"; "\<close>. A reason is \<open>[action] error\<close>, or \<open>[action:target] error\<close>
  when the step has a target; a missing or empty error reads as the default text.
\<close>

theorem three_failures_fail_task:
  assumes "tr_completed_steps (fst (execute_task env task w)) = pre @ [s1, s2, s3]"
    and "\<not> cs_success s1" and "\<not> cs_success s2" and "\<not> cs_success s3"
  shows "tr_success (fst (execute_task env task w)) = False
       \<and> tr_state (fst (execute_task env task w)) = FAILED
       \<and> tr_error (fst (execute_task env task w)) =
           Some (failure_message (count_consecutive_failures (pre @ [s1, s2, s3]))
                  (failure_reason s1 @ ascii ''; '' @ failure_reason s2 @ ascii ''; '' @ failure_reason s3))"
proof -
  obtain r evs where run: "execute_loop env task 0 [] w = (r, evs)"
    by (cases "execute_loop env task 0 [] w")
  have led: "tr_completed_steps r = pre @ [s1, s2, s3]"
    using assms(1) run by (simp add: execute_task_def)
  have ge: "3 \<le> count_consecutive_failures (tr_completed_steps r)"
    using count_three_failures[OF assms(2-4), of pre] led by simp
  have start: "count_consecutive_failures [] < 3"
    by (simp add: count_consecutive_failures_def)
  have "r = failed_result task (tr_completed_steps r)
               (failure_message (count_consecutive_failures (tr_completed_steps r))
                  (get_failure_reasons (tr_completed_steps r) 3))"
    by (rule execute_loop_failures[OF start run ge])
  then have "tr_success r = False \<and> tr_state r = FAILED \<and>
      tr_error r = Some (failure_message (count_consecutive_failures (tr_completed_steps r))
                  (get_failure_reasons (tr_completed_steps r) 3))"
    by (metis failed_result_def task_result.select_convs(1,5,6))
  then show ?thesis
    using run led reasons_three_failures[OF assms(2-4), of pre]
    by (simp add: execute_task_def)
qed

lemma get_all_elements_empty: "get_all_elements empty_ui = []"
  by (simp add: get_all_elements_def get_indexed_all_elements_def build_indexed_elements_def empty_ui_def)

lemmas loop_eval = execute_task_def execute_loop.simps scripted_env_def check_stop_def iteration_def
     plan_next_step_def single_plan_def batch_plan_def complete_plan_def fallback_plan_def
     get_all_steps_def has_batch_steps_def convert_batch_def
     convert_after_input_click_def last_step_clicked_input_def simple_step_def
     fix_scroll_direction_def resolve_step_def execute_step_def record_step_def
     get_all_elements_empty update_last_def count_consecutive_failures_def Let_def
     failed_result_def completed_result_def no_params_def

lemma failing_run_ledger:
  "tr_completed_steps (fst (execute_task failing_env (ascii ''t'') 0)) = [] @ [failed_back, failed_back, failed_back]"
  by (simp add: loop_eval failing_env_def back_step_def failed_back_def ascii_def)

theorem three_failures_fail_task_witness:
  "tr_success (fst (execute_task failing_env (ascii ''t'') 0)) = False
   \<and> tr_state (fst (execute_task failing_env (ascii ''t'') 0)) = FAILED
   \<and> tr_error (fst (execute_task failing_env (ascii ''t'') 0)) =
       Some ([36830, 32493] @ ascii ''3'' @
             [27425, 25805, 20316, 22833, 36133, 65292, 20219, 21153, 32456, 27490, 12290,
              22833, 36133, 21407, 22240] @ ascii '': [back] boom; [back] boom; [back] boom'')"
  using three_failures_fail_task[OF failing_run_ledger]
  by (simp add: failed_back_def failure_message_def failure_reason_def truthy_str_def
      error_or_unknown_def count_consecutive_failures_def str_int_def str_nat.simps ascii_def)



section \<open>Cancellation and reasoning failures\<close>


lemma stopping_run:
  "execute_task stopping_env (ascii ''t'') 0 =
     (failed_result (ascii ''t'') [ok_back] stopped_message,
      [EvCapture, EvPlan, EvExecute back_step, EvSleep 500, EvAppend ok_back, EvSleep 300, EvCapture,
       EvUpdateLast [] False])"
  by (simp add: loop_eval stopping_env_def back_step_def ok_back_def ascii_def)


text \<open>
  C3 (amended): when the reasoning call fails, the planner returns the no-op decision
  (no next step, no batch, \<open>task_complete\<close> false, confidence 0), and the
  orchestrator sleeps the fixed five seconds and goes on to the next iteration with the
  ledger unchanged and without calling the executor; the iteration counter
  \<open>step_count\<close> has been advanced by one, so the retry consumes one unit of
  \<open>max_steps\<close>.
\<close>

theorem reasoning_failure_backoff:
  assumes "step_count < max_steps env"
    and "check_stop env w = (False, w0)"
    and "capture_ui env w0 = (ui, w1)"
    and "reason_and_parse env task ui completed_steps w1 = (None, w2)"
  shows "plan_next_step env task ui completed_steps w1 = (fallback_plan, w2)
     \<and> pr_next_step fallback_plan = None \<and> pr_next_steps fallback_plan = None
     \<and> pr_task_complete fallback_plan = False \<and> pr_confidence fallback_plan = 0
     \<and> iteration env task completed_steps w0 =
          (Continue completed_steps, w2, [EvCapture, EvPlan, EvSleep 5000])
     \<and> execute_loop env task step_count completed_steps w =
          (case execute_loop env task (step_count + 1) completed_steps w2 of
             (r, evs) \<Rightarrow> (r, [EvCapture, EvPlan, EvSleep 5000] @ evs))"
proof -
  have p: "plan_next_step env task ui completed_steps w1 = (fallback_plan, w2)"
    using assms(4) by (simp add: plan_next_step_def)
  have it: "iteration env task completed_steps w0 =
          (Continue completed_steps, w2, [EvCapture, EvPlan, EvSleep 5000])"
    using assms(3) p
    by (simp add: iteration_def Let_def fallback_plan_def get_all_steps_def has_batch_steps_def)
  show ?thesis using p it assms(1,2)
    by (simp add: execute_loop.simps[of env task step_count completed_steps w] fallback_plan_def)
qed

theorem reasoning_failure_backoff_witness:
  "iteration flaky_env (ascii ''t'') [] 0 = (Continue [], 1, [EvCapture, EvPlan, EvSleep 5000])
   \<and> execute_loop flaky_env (ascii ''t'') 0 [] 0 =
       (case execute_loop flaky_env (ascii ''t'') 1 [] 1 of
          (r, evs) \<Rightarrow> (r, [EvCapture, EvPlan, EvSleep 5000] @ evs))"
  using reasoning_failure_backoff[of 0 flaky_env 0 0 empty_ui 0 "ascii ''t''" "[]" 1]
  by (simp add: flaky_env_def scripted_env_def check_stop_def)

text \<open>
  C3 as stated fails: with a budget of one iteration and one failed reasoning call, the
  run ends Failed on the step budget right after the backoff sleep. Had the counter not
  been incremented, the loop would have retried from the same counter and completed.
\<close>

theorem reasoning_failure_counterexample:
  "execute_task flaky_env (ascii ''t'') 0 =
      (failed_result (ascii ''t'') [] (max_steps_message 1), [EvCapture, EvPlan, EvSleep 5000])
   \<and> execute_loop flaky_env (ascii ''t'') 0 [] 0 \<noteq>
       (case execute_loop flaky_env (ascii ''t'') 0 [] 1 of
          (r, evs) \<Rightarrow> (r, [EvCapture, EvPlan, EvSleep 5000] @ evs))"
  by (simp add: loop_eval flaky_env_def ascii_def)


section \<open>The ledger\<close>

lemma appended_append: "appended (xs @ ys) = appended xs @ appended ys"
  by (induction xs rule: appended.induct) simp_all

lemma executed_append: "executed (xs @ ys) = executed xs @ executed ys"
  by (induction xs rule: executed.induct) simp_all

lemma replay_append: "replay (xs @ ys) L = replay ys (replay xs L)"
  by (induction xs L rule: replay.induct) simp_all

lemma records_record_step: "records (record_step s r ub i) s"
  by (simp add: records_def record_step_def)

lemma run_steps_trace:
  "run_steps env b ui i steps L w = (L', w', evs) \<Longrightarrow>
     L' = L @ appended evs \<and> (steps \<noteq> [] \<longrightarrow> appended evs \<noteq> [])
     \<and> replay evs K = K @ appended evs
     \<and> in_order fresh (evs @ rest) = in_order (fresh \<or> steps \<noteq> []) rest"
proof (induction steps arbitrary: i L w L' w' evs K fresh)
  case Nil
  then show ?case by simp
next
  case (Cons s steps)
  obtain sr w1 where ex: "execute_step env (resolve_step ui s) ui w = (sr, w1)"
    by (cases "execute_step env (resolve_step ui s) ui w")
  let ?c = "record_step (resolve_step ui s) sr (get_all_elements ui) i"
  show ?case
  proof (cases "\<not> sr_success sr \<and> b")
    case True
    with Cons.prems ex show ?thesis
      by (auto simp: Let_def records_record_step)
  next
    case False
    obtain L2 w2 ev2 where rec: "run_steps env b ui (Suc i) steps (L @ [?c]) w1 = (L2, w2, ev2)"
      by (cases "run_steps env b ui (Suc i) steps (L @ [?c]) w1") auto
    from Cons.IH[OF rec, of "K @ [?c]" True] have ih: "L2 = (L @ [?c]) @ appended ev2"
      "replay ev2 (K @ [?c]) = (K @ [?c]) @ appended ev2"
      "in_order True (ev2 @ rest) = in_order True rest" by simp_all
    from Cons.prems ex False rec
    have "L' = L2" "evs = [EvExecute (resolve_step ui s), EvSleep (if b then 100 else 500), EvAppend ?c] @ ev2"
      by (auto simp: Let_def)
    with ih show ?thesis by (simp add: records_record_step)
  qed
qed

lemma run_steps_executed:
  "run_steps env b ui i steps L w = (L', w', evs) \<Longrightarrow>
     prefix (executed evs) (map (resolve_step ui) steps)
     \<and> (steps \<noteq> [] \<longrightarrow> executed evs \<noteq> [])"
proof (induction steps arbitrary: i L w L' w' evs)
  case Nil
  then show ?case by simp
next
  case (Cons s steps)
  obtain sr w1 where ex: "execute_step env (resolve_step ui s) ui w = (sr, w1)"
    by (cases "execute_step env (resolve_step ui s) ui w")
  let ?c = "record_step (resolve_step ui s) sr (get_all_elements ui) i"
  show ?case
  proof (cases "\<not> sr_success sr \<and> b")
    case True
    with Cons.prems ex show ?thesis
      by (auto simp: Let_def)
  next
    case False
    obtain L2 w2 ev2 where rec: "run_steps env b ui (Suc i) steps (L @ [?c]) w1 = (L2, w2, ev2)"
      by (cases "run_steps env b ui (Suc i) steps (L @ [?c]) w1") auto
    from Cons.IH[OF rec] have ih: "prefix (executed ev2) (map (resolve_step ui) steps)" by simp
    from Cons.prems ex False rec
    have "evs = [EvExecute (resolve_step ui s), EvSleep (if b then 100 else 500), EvAppend ?c] @ ev2"
      by (auto simp: Let_def)
    with ih show ?thesis by simp
  qed
qed

lemma run_steps_counts:
  "run_steps env b ui i steps L w = (L', w', evs) \<Longrightarrow> length (appended evs) = length (executed evs)"
proof (induction steps arbitrary: i L w L' w' evs)
  case Nil
  then show ?case by simp
next
  case (Cons s steps)
  obtain sr w1 where ex: "execute_step env (resolve_step ui s) ui w = (sr, w1)"
    by (cases "execute_step env (resolve_step ui s) ui w")
  let ?c = "record_step (resolve_step ui s) sr (get_all_elements ui) i"
  show ?case
  proof (cases "\<not> sr_success sr \<and> b")
    case True
    with Cons.prems ex show ?thesis
      by (auto simp: Let_def)
  next
    case False
    obtain L2 w2 ev2 where rec: "run_steps env b ui (Suc i) steps (L @ [?c]) w1 = (L2, w2, ev2)"
      by (cases "run_steps env b ui (Suc i) steps (L @ [?c]) w1") auto
    from Cons.prems ex False rec
    have "evs = [EvExecute (resolve_step ui s), EvSleep (if b then 100 else 500), EvAppend ?c] @ ev2"
      by (auto simp: Let_def)
    with Cons.IH[OF rec] show ?thesis by simp
  qed
qed

lemma update_last_append:
  "A \<noteq> [] \<Longrightarrow>
     update_last (L @ A) ua uc =
       L @ butlast A @ [(last A)\<lparr>cs_ui_after := take 20 ua, cs_ui_changed := uc\<rparr>]"
  by (simp add: update_last_def butlast_append)

text \<open>The ledger an iteration leaves behind.\<close>

lemma iteration_trace:
  assumes "iteration env task L w = (f, w', evs)"
  shows "(case f of Break \<Rightarrow> L | Continue L' \<Rightarrow> L' | Return r \<Rightarrow> tr_completed_steps r) = replay evs L
       \<and> prefix L (replay evs L)
       \<and> in_order False (evs @ rest) = in_order False rest"
proof -
  obtain ui w1 where cap: "capture_ui env w = (ui, w1)" by (cases "capture_ui env w")
  obtain pr w2 where pl: "plan_next_step env task ui L w1 = (pr, w2)"
    by (cases "plan_next_step env task ui L w1")
  show ?thesis
  proof (cases "pr_task_complete pr \<or> get_all_steps pr = []")
    case True
    with assms cap pl show ?thesis
      by (auto simp: iteration_def Let_def split: if_splits)
  next
    case False
    let ?steps = "map (fix_scroll_direction L)
        (convert_after_input_click L (convert_batch pr ui (get_all_steps pr)))"
    have ne: "?steps \<noteq> []" using False
      by (auto simp: convert_after_input_click_def convert_batch_def Let_def)
    obtain L1 w3 ev where rs: "run_steps env (has_batch_steps pr) ui 0 ?steps L w2 = (L1, w3, ev)"
      by (cases "run_steps env (has_batch_steps pr) ui 0 ?steps L w2") auto
    obtain ui2 w4 where cap2: "capture_ui env w3 = (ui2, w4)" by (cases "capture_ui env w3")
    let ?ua = "get_all_elements ui2"
    let ?uc = "set (get_all_elements ui) \<noteq> set (get_all_elements ui2)"
    let ?up = "EvUpdateLast (take 20 ?ua) ?uc"
    from run_steps_trace[OF rs, of L False "[EvSleep 300, EvCapture, ?up] @ rest"] ne
    have l1: "L1 = L @ appended ev" "appended ev \<noteq> []" "replay ev L = L @ appended ev"
      "in_order False (ev @ [EvSleep 300, EvCapture, ?up] @ rest) = in_order False rest"
      by simp_all
    let ?L2 = "update_last L1 ?ua ?uc"
    let ?evs = "[EvCapture, EvPlan] @ ev @ [EvSleep 300, EvCapture, ?up]"
    have ne1: "L1 \<noteq> []" using l1(1,2) by simp
    from assms cap pl False rs cap2 ne1
    have shape: "(f = Continue ?L2 \<or> (\<exists>r. f = Return r \<and> tr_completed_steps r = ?L2))
          \<and> evs = ?evs"
      by (auto simp: iteration_def Let_def failed_result_def split: if_splits)
    have rp: "replay ?evs L = ?L2"
      using l1(2,3) by (simp add: replay_append l1(1) update_last_append butlast_append)
    have pf: "prefix L ?L2"
      by (simp add: l1(1) update_last_append[OF l1(2)])
    have io: "in_order False (?evs @ rest) = in_order False rest"
      using l1(4) by simp
    from shape rp pf io show ?thesis by auto
  qed
qed

lemma execute_loop_trace:
  "execute_loop env task sc L w = (r, evs) \<Longrightarrow>
     tr_completed_steps r = replay evs L \<and> prefix L (tr_completed_steps r) \<and> in_order False evs"
proof (induction env task sc L w arbitrary: r evs rule: execute_loop.induct)
  case (1 env task step_count completed_steps w)
  note [simp] = execute_loop.simps[of env task step_count completed_steps w]
  show ?case
  proof (cases "step_count < max_steps env")
    case False
    with "1.prems" show ?thesis
      by (auto simp: failed_result_def)
  next
    case True
    obtain stop w0 where cs: "check_stop env w = (stop, w0)" by (cases "check_stop env w")
    show ?thesis
    proof (cases stop)
      case True
      with \<open>step_count < max_steps env\<close> cs "1.prems" show ?thesis
        by (auto simp: failed_result_def)
    next
      case False
      obtain f w' ev where it: "iteration env task completed_steps w0 = (f, w', ev)"
        by (cases "iteration env task completed_steps w0")
      show ?thesis
      proof (cases f)
        case (Return r')
        with \<open>step_count < max_steps env\<close> cs False it "1.prems" have "r = r'" "evs = ev" by simp_all
        with iteration_trace[OF it, of "[]"] Return show ?thesis by simp
      next
        case Break
        with \<open>step_count < max_steps env\<close> cs False it "1.prems"
        have "tr_completed_steps r = completed_steps" "evs = ev"
          by (auto simp: completed_result_def)
        with iteration_trace[OF it, of "[]"] Break show ?thesis by simp
      next
        case (Continue L')
        obtain r2 ev2 where rec: "execute_loop env task (step_count + 1) L' w' = (r2, ev2)"
          by (cases "execute_loop env task (step_count + 1) L' w'")
        with \<open>step_count < max_steps env\<close> cs False it Continue "1.prems"
        have eq: "r = r2" "evs = ev @ ev2" by simp_all
        have stopF: "stop = False" using False by simp
        have ih: "tr_completed_steps r2 = replay ev2 L' \<and> prefix L' (tr_completed_steps r2)
            \<and> in_order False ev2"
          by (rule "1.IH"[OF \<open>step_count < max_steps env\<close> cs[symmetric] stopF it[symmetric] Continue refl rec])
        from iteration_trace[OF it, of ev2] Continue
        have itr: "L' = replay ev completed_steps" "prefix completed_steps L'"
          "in_order False (ev @ ev2) = in_order False ev2" by simp_all
        from ih itr eq show ?thesis
          by (auto simp: replay_append intro: prefix_order.trans)
      qed
    qed
  qed
qed

text \<open>
  C8 (amended): from any state of the loop on, and so throughout a run, the ledger
  changes in two ways only, and the trace shows both: a record is appended, and the
  record that is last at the end of an iteration has its \<open>ui_after\<close> and
  \<open>ui_changed\<close> written. The final ledger is exactly what these appends and writes
  make of the current ledger (\<open>replay\<close>). Every append follows the executor call of
  the step it records, one append for each call and in the order of the calls, and the
  record appended carries that step with \<open>ui_after\<close> empty and \<open>ui_changed\<close>
  false; a write occurs once in an iteration that appended, after its last append, so it
  reaches only the last record appended in that iteration (\<open>in_order\<close>). The current
  ledger is a prefix of the final one: the records of earlier iterations are never
  changed, reordered or deleted.
\<close>

theorem ledger_append_only:
  "tr_completed_steps (fst (execute_loop env task step_count completed_steps w))
     = replay (snd (execute_loop env task step_count completed_steps w)) completed_steps
   \<and> in_order False (snd (execute_loop env task step_count completed_steps w))
   \<and> prefix completed_steps (tr_completed_steps (fst (execute_loop env task step_count completed_steps w)))"
  using execute_loop_trace[OF surjective_pairing, of env task step_count completed_steps w]
  by blast

lemma get_all_elements_ui_a: "get_all_elements ui_a = [ascii ''a'']"
  by (simp add: get_all_elements_def get_indexed_all_elements_def build_indexed_elements_def ui_a_def
      text_view_def mk_element_def element_name_def should_include_def is_input_def class_lower_def
      lower_def to_lower_full_def lower_cp_def str_in_def sublist_Cons_right strip_def is_space_def shorten_def
      ascii_def Let_def)

lemma changing_run:
  "execute_task changing_env (ascii ''t'') 0 =
     (completed_result (ascii ''t'') [ok_back\<lparr>cs_ui_after := [ascii ''a''], cs_ui_changed := True\<rparr>],
      [EvCapture, EvPlan, EvExecute back_step, EvSleep 500, EvAppend ok_back, EvSleep 300,
       EvCapture, EvUpdateLast [ascii ''a''] True, EvCapture, EvPlan])"
  by (simp add: loop_eval changing_env_def back_step_def ok_back_def get_all_elements_ui_a ascii_def)

theorem ledger_append_only_witness:
  "tr_completed_steps (fst (execute_task changing_env (ascii ''t'') 0))
     = replay [EvAppend ok_back, EvUpdateLast [ascii ''a''] True] []
   \<and> in_order False [EvCapture, EvPlan, EvExecute back_step, EvSleep 500, EvAppend ok_back, EvSleep 300,
       EvCapture, EvUpdateLast [ascii ''a''] True, EvCapture, EvPlan]"
  using ledger_append_only[of changing_env "ascii ''t''" 0 "[]" 0, folded execute_task_def]
  by (simp add: changing_run)

text \<open>
  C8 as stated fails: the record of the first step is appended with empty \<open>ui_after\<close>
  and \<open>ui_changed\<close> false, and the ledger of the result holds it with the names
  of the new screen and \<open>ui_changed\<close> true.
\<close>

theorem ledger_mutation_counterexample:
  "appended (snd (execute_task changing_env (ascii ''t'') 0)) = [ok_back]
   \<and> tr_completed_steps (fst (execute_task changing_env (ascii ''t'') 0)) =
       [ok_back\<lparr>cs_ui_after := [ascii ''a''], cs_ui_changed := True\<rparr>]
   \<and> tr_completed_steps (fst (execute_task changing_env (ascii ''t'') 0)) \<noteq>
       appended (snd (execute_task changing_env (ascii ''t'') 0))"
  by (simp add: changing_run completed_result_def ok_back_def)

section \<open>Scroll correction and digit batches\<close>

lemma resolve_step_action: "ns_action (resolve_step ui s) = ns_action s"
  by (simp add: resolve_step_def Let_def split: option.split prod.split)

lemma not_click_scroll: "\<not> is_click_or_tap (ascii ''scroll'')"
  by (simp add: is_click_or_tap_def ascii_def)

lemma resolve_step_scroll: "ns_action s = ascii ''scroll'' \<Longrightarrow> resolve_step ui s = s"
  by (simp add: resolve_step_def not_click_scroll)

lemma fix_scroll_direction_action: "ns_action (fix_scroll_direction L s) = ns_action s"
  by (simp add: fix_scroll_direction_def split: option.split)

lemma opposite_of_four:
  assumes "d = ascii ''up'' \<or> d = ascii ''down'' \<or> d = ascii ''left'' \<or> d = ascii ''right''"
  shows "get_opposite_direction d \<noteq> [] \<and> get_opposite_direction d \<noteq> d"
  using assms by (auto simp: get_opposite_direction_def ascii_def)

lemma check_scroll_stuck_two:
  assumes "scroll_no_change s1" "scroll_no_change s2"
    and "p_direction (cs_parameters s1) = Some d" "p_direction (cs_parameters s2) = Some d"
  shows "check_scroll_stuck (pre @ [s1, s2]) = Some (get_opposite_direction d)"
  using assms by (simp add: check_scroll_stuck_def Let_def direction_or_empty_def)

lemma fix_scroll_direction_stuck:
  assumes "check_scroll_stuck L = Some r" "r \<noteq> []" "ns_action s = ascii ''scroll''"
  shows "p_direction (ns_parameters (fix_scroll_direction L s)) = Some r"
  using assms
  by (auto simp: fix_scroll_direction_def direction_or_empty_def split: option.splits)

lemma iteration_executed:
  assumes "iteration env task L w = (f, w', evs)"
    and "capture_ui env w = (ui, w1)"
    and "plan_next_step env task ui L w1 = (pr, w2)"
  shows "prefix (executed evs)
           (map (resolve_step ui) (map (fix_scroll_direction L)
              (convert_after_input_click L (convert_batch pr ui (get_all_steps pr)))))
       \<and> (\<not> pr_task_complete pr \<and> get_all_steps pr \<noteq> [] \<longrightarrow> executed evs \<noteq> [])
       \<and> length (appended evs) = length (executed evs)"
proof (cases "pr_task_complete pr \<or> get_all_steps pr = []")
  case True
  with assms show ?thesis
    by (auto simp: iteration_def Let_def split: if_splits)
next
  case False
  let ?steps = "map (fix_scroll_direction L)
      (convert_after_input_click L (convert_batch pr ui (get_all_steps pr)))"
  have ne: "?steps \<noteq> []" using False
    by (auto simp: convert_after_input_click_def convert_batch_def Let_def)
  obtain L1 w3 ev where rs: "run_steps env (has_batch_steps pr) ui 0 ?steps L w2 = (L1, w3, ev)"
    by (cases "run_steps env (has_batch_steps pr) ui 0 ?steps L w2") auto
  obtain ui2 w4 where cap2: "capture_ui env w3 = (ui2, w4)" by (cases "capture_ui env w3")
  from assms False rs cap2
  have ev: "\<exists>tl. evs = [EvCapture, EvPlan] @ ev @ tl \<and> executed tl = [] \<and> appended tl = []"
    by (auto simp: iteration_def Let_def split: if_splits)
  from run_steps_executed[OF rs] ne run_steps_counts[OF rs] ev show ?thesis
    by (auto simp: executed_append appended_append)
qed

text \<open>
  When the two most recent records of the ledger are successful scrolls that left the
  UI unchanged, both recorded with the same direction \<open>d\<close>, one of up, down, left
  and right, every scroll the orchestrator hands to the executor in the iteration that
  follows carries the opposite direction, whatever the planner proposed.
\<close>

lemma recorded_direction_reversed:
  assumes "completed_steps = pre @ [s1, s2]"
    and "scroll_no_change s1" and "scroll_no_change s2"
    and "p_direction (cs_parameters s1) = Some d" and "p_direction (cs_parameters s2) = Some d"
    and "d = ascii ''up'' \<or> d = ascii ''down'' \<or> d = ascii ''left'' \<or> d = ascii ''right''"
    and "iteration env task completed_steps w = (f, w', evs)"
    and "s \<in> set (executed evs)" and "ns_action s = ascii ''scroll''"
  shows "p_direction (ns_parameters s) = Some (get_opposite_direction d)
       \<and> get_opposite_direction d \<noteq> d
       \<and> get_opposite_direction (ascii ''up'') = ascii ''down''
       \<and> get_opposite_direction (ascii ''down'') = ascii ''up''
       \<and> get_opposite_direction (ascii ''left'') = ascii ''right''
       \<and> get_opposite_direction (ascii ''right'') = ascii ''left''"
proof -
  have table: "get_opposite_direction (ascii ''up'') = ascii ''down''"
    "get_opposite_direction (ascii ''down'') = ascii ''up''"
    "get_opposite_direction (ascii ''left'') = ascii ''right''"
    "get_opposite_direction (ascii ''right'') = ascii ''left''"
    by (simp_all add: get_opposite_direction_def ascii_def)
  obtain ui w1 where cap: "capture_ui env w = (ui, w1)" by (cases "capture_ui env w")
  obtain pr w2 where pl: "plan_next_step env task ui completed_steps w1 = (pr, w2)"
    by (cases "plan_next_step env task ui completed_steps w1")
  let ?base = "convert_after_input_click completed_steps (convert_batch pr ui (get_all_steps pr))"
  have "prefix (executed evs) (map (resolve_step ui) (map (fix_scroll_direction completed_steps) ?base))"
    using iteration_executed[OF assms(7) cap pl] by simp
  then have "s \<in> set (map (resolve_step ui) (map (fix_scroll_direction completed_steps) ?base))"
    using assms(8) set_mono_prefix by blast
  then obtain x where x: "s = resolve_step ui (fix_scroll_direction completed_steps x)"
    by auto
  have ax: "ns_action x = ascii ''scroll''"
    using assms(9) x by (simp add: resolve_step_action fix_scroll_direction_action)
  then have sx: "s = fix_scroll_direction completed_steps x"
    using x by (simp add: resolve_step_scroll fix_scroll_direction_action)
  have st: "check_scroll_stuck completed_steps = Some (get_opposite_direction d)"
    using check_scroll_stuck_two[OF assms(2-5)] assms(1) by simp
  show ?thesis
    using fix_scroll_direction_stuck[OF st _ ax] opposite_of_four[OF assms(6)] sx table by simp
qed

lemma stuck_iteration_executed:
  "executed (snd (snd (iteration scrolling_env (ascii ''t'') ([] @ [stuck_down, stuck_down]) 0)))
     = [scroll_step (ascii ''up'')]"
  by (simp add: loop_eval scrolling_env_def scroll_step_def stuck_down_def check_scroll_stuck_def
      scroll_no_change_def direction_or_empty_def get_opposite_direction_def is_click_or_tap_def ascii_def)

lemma bare_scroll_swipes_down:
  "executor_execute plain_executor bare_scroll empty_ui 0 =
     ((True, None), 0, [Swipe \<lparr>pt_x = 540, pt_y = 576\<rparr> \<lparr>pt_x = 540, pt_y = 1344\<rparr> 500])"
proof -
  have dc: "device_controller plain_executor = Some (\<lambda>c w. (None, w))"
    by (simp add: plain_executor_def)
  have a: "execute_action plain_executor (ascii ''scroll'') None no_params [] 0 =
     (Inr succeeded, 0, [Swipe \<lparr>pt_x = 540, pt_y = 576\<rparr> \<lparr>pt_x = 540, pt_y = 1344\<rparr> 500])"
    by (simp add: execute_action_def execute_scroll_def execute_swipe_def swipe_between_def
        Point_new_def device_then_success_def plain_executor_def no_params_def Let_def ascii_def)
  show ?thesis
    by (simp add: executor_execute_def dc bare_scroll_def simple_step_def empty_ui_def a succeeded_def)
qed

lemma down_scroll_swipes_down:
  "executor_execute plain_executor (scroll_step (ascii ''down'')) empty_ui 0 =
     ((True, None), 0, [Swipe \<lparr>pt_x = 540, pt_y = 576\<rparr> \<lparr>pt_x = 540, pt_y = 1344\<rparr> 500])"
proof -
  have dc: "device_controller plain_executor = Some (\<lambda>c w. (None, w))"
    by (simp add: plain_executor_def)
  have a: "execute_action plain_executor (ascii ''scroll'') None
       (no_params\<lparr>p_direction := Some (ascii ''down'')\<rparr>) [] 0 =
     (Inr succeeded, 0, [Swipe \<lparr>pt_x = 540, pt_y = 576\<rparr> \<lparr>pt_x = 540, pt_y = 1344\<rparr> 500])"
    by (simp add: execute_action_def execute_scroll_def execute_swipe_def swipe_between_def
        Point_new_def device_then_success_def plain_executor_def no_params_def Let_def ascii_def)
  show ?thesis
    by (simp add: executor_execute_def dc scroll_step_def simple_step_def empty_ui_def a succeeded_def)
qed

lemma bare_stuck: "check_scroll_stuck [stuck_bare, stuck_bare] = Some []"
  by (simp add: check_scroll_stuck_def stuck_bare_def scroll_no_change_def direction_or_empty_def
      get_opposite_direction_def no_params_def Let_def ascii_def)

lemma bare_iteration_executed:
  "executed (snd (snd (iteration scrolling_env (ascii ''t'') [stuck_bare, stuck_bare] 0)))
     = [scroll_step (ascii ''down'')]"
  by (simp add: loop_eval scrolling_env_def scroll_step_def bare_stuck is_click_or_tap_def ascii_def)

text \<open>
  C5 holds of the code only for scrolls recorded with a direction. A scroll whose
  parameters name no direction is executed downwards: the executor reads the direction
  with the default \<open>down\<close> and issues the same swipe as for \<open>down\<close>. When the two
  most recent records are such scrolls, both successful and neither changing the UI,
  \<open>_check_scroll_stuck\<close> reads their direction with the default \<open>''\<close> and returns
  the empty string, which the caller takes for "not stuck": the next scroll, proposed
  as \<open>down\<close>, is handed to the executor as \<open>down\<close>, not as \<open>up\<close>.
\<close>

theorem default_direction_scroll_not_reversed:
  "scroll_no_change stuck_bare
   \<and> p_direction (cs_parameters stuck_bare) = None
   \<and> executor_execute plain_executor bare_scroll empty_ui 0
       = executor_execute plain_executor (scroll_step (ascii ''down'')) empty_ui 0
   \<and> snd (snd (executor_execute plain_executor bare_scroll empty_ui 0))
       = [Swipe \<lparr>pt_x = 540, pt_y = 576\<rparr> \<lparr>pt_x = 540, pt_y = 1344\<rparr> 500]
   \<and> check_scroll_stuck [stuck_bare, stuck_bare] = Some []
   \<and> executed (snd (snd (iteration scrolling_env (ascii ''t'') [stuck_bare, stuck_bare] 0)))
       = [scroll_step (ascii ''down'')]
   \<and> get_opposite_direction (ascii ''down'') = ascii ''up''"
  by (simp add: bare_scroll_swipes_down down_scroll_swipes_down bare_stuck bare_iteration_executed)
     (simp add: stuck_bare_def scroll_no_change_def no_params_def get_opposite_direction_def ascii_def)
























section \<open>Points and device calls\<close>

lemma ok_indexed: "build_indexed_elements ok_ui False = [(1, ascii ''OK'', ok_button)]"
  by (simp add: build_indexed_elements_def ok_ui_def ok_button_def mk_element_def element_name_def
      should_include_def is_input_def class_lower_def lower_def to_lower_full_def lower_cp_def str_in_def
      sublist_Cons_right strip_def is_space_def shorten_def ascii_def Let_def)

lemma ok_lookup: "get_element_by_index ok_ui (VInt 1) = Some ok_button"
  by (simp add: get_element_by_index_def ok_indexed)

























section \<open>Resolution order\<close>

lemma indexed_elements_subset:
  "(i, n, e) \<in> set (build_indexed_elements ui co) \<Longrightarrow> e \<in> set (elements ui)"
proof -
  assume a: "(i, n, e) \<in> set (build_indexed_elements ui co)"
  have "map (snd \<circ> snd) (build_indexed_elements ui co) = filter (included co) (elements ui)"
    using build_loop_elements[of co "elements ui" 1 Map.empty "[]"]
    by (simp add: build_indexed_elements_def)
  moreover have "e \<in> set (map (snd \<circ> snd) (build_indexed_elements ui co))"
    using a by force
  ultimately show ?thesis by simp
qed

lemma get_element_by_index_mem:
  assumes "get_element_by_index ui index = Some e"
  shows "e \<in> set (elements ui)"
proof -
  let ?all = "build_indexed_elements ui False"
  let ?k = "nat (int_value index - 1)"
  from assms have r: "1 \<le> int_value index" "int_value index \<le> int (length ?all)"
    and e: "e = snd (snd (?all ! ?k))"
    by (auto simp: get_element_by_index_def Let_def split: if_splits)
  from r have "?k < length ?all" by simp
  then have "?all ! ?k \<in> set ?all" by (rule nth_mem)
  then have "(fst (?all ! ?k), fst (snd (?all ! ?k)), e) \<in> set ?all" using e by simp
  then show ?thesis by (rule indexed_elements_subset)
qed

lemma rematch_loop_mem:
  "rematch_loop tn tc tk xs m b = (Some (el, i), b') \<Longrightarrow>
     m = Some (el, i) \<or> (\<exists>n. (i, n, el) \<in> set xs)"
proof (induction tn tc tk xs m b rule: rematch_loop.induct)
  case (1 tn tc tk matched best)
  then show ?case by simp
next
  case (2 tn tc tk idx name elem rest matched best)
  let ?nc = "clean name"
  show ?case
  proof (cases "tn = name \<or> tc = ?nc")
    case True
    with "2.prems" show ?thesis by auto
  next
    case exact: False
    show ?thesis
    proof (cases "str_in tn name \<or> str_in name tn")
      case True
      show ?thesis
      proof (cases "best < 80")
        case lt: True
        with exact True "2.prems" have "rematch_loop tn tc tk rest (Some (elem, idx)) 80 = (Some (el, i), b')"
          by (simp add: Let_def)
        from "2.IH"(1)[OF refl exact True lt this] show ?thesis by auto
      next
        case ge: False
        with exact True "2.prems" have "rematch_loop tn tc tk rest matched best = (Some (el, i), b')"
          by (simp add: Let_def)
        from "2.IH"(2)[OF refl exact True ge this] show ?thesis by auto
      qed
    next
      case sub: False
      show ?thesis
      proof (cases "str_in tc ?nc \<or> str_in ?nc tc")
        case True
        show ?thesis
        proof (cases "best < 70")
          case lt: True
          with exact sub True "2.prems" have "rematch_loop tn tc tk rest (Some (elem, idx)) 70 = (Some (el, i), b')"
            by (simp add: Let_def)
          from "2.IH"(3)[OF refl exact sub True lt this] show ?thesis by auto
        next
          case ge: False
          with exact sub True "2.prems" have "rematch_loop tn tc tk rest matched best = (Some (el, i), b')"
            by (simp add: Let_def)
          from "2.IH"(4)[OF refl exact sub True ge this] show ?thesis by auto
        qed
      next
        case cl: False
        show ?thesis
        proof (cases "tk \<noteq> [] \<and> length tk > 1 \<and> (str_in tk ?nc \<or> str_in ?nc tk)")
          case True
          show ?thesis
          proof (cases "best < 60")
            case lt: True
            with exact sub cl True "2.prems" have "rematch_loop tn tc tk rest (Some (elem, idx)) 60 = (Some (el, i), b')"
              by (simp add: Let_def)
            from "2.IH"(5)[OF refl exact sub cl True lt this] show ?thesis by auto
          next
            case ge: False
            with exact sub cl True "2.prems" have "rematch_loop tn tc tk rest matched best = (Some (el, i), b')"
              by (simp add: Let_def)
            from "2.IH"(6)[OF refl exact sub cl True ge this] show ?thesis by auto
          qed
        next
          case kw: False
          with exact sub cl "2.prems" have "rematch_loop tn tc tk rest matched best = (Some (el, i), b')"
            by (auto simp: Let_def split: if_splits)
          from "2.IH"(7)[OF refl exact sub cl kw this] show ?thesis by auto
        qed
      qed
    qed
  qed
qed

lemma rematch_mem: "rematch ui tn = Some (el, i) \<Longrightarrow> el \<in> set (elements ui)"
proof -
  assume a: "rematch ui tn = Some (el, i)"
  obtain m b where l: "rematch_loop tn (clean tn) (strip_prefixes name_prefixes (clean tn))
      (get_indexed_all_elements ui) None 0 = (m, b)"
    by (cases "rematch_loop tn (clean tn) (strip_prefixes name_prefixes (clean tn))
      (get_indexed_all_elements ui) None 0")
  with a have "m = Some (el, i)" by (simp add: rematch_def Let_def split: if_splits)
  with l have l': "rematch_loop tn (clean tn) (strip_prefixes name_prefixes (clean tn))
      (get_indexed_all_elements ui) None 0 = (Some (el, i), b)" by simp
  from rematch_loop_mem[OF l']
  obtain n where "(i, n, el) \<in> set (get_indexed_all_elements ui)" by auto
  then show ?thesis unfolding get_indexed_all_elements_def by (rule indexed_elements_subset)
qed

text \<open>The matching loop picks the highest score, the first entry among equals.\<close>

lemma rematch_loop_pick:
  "0 \<le> best \<Longrightarrow> best < 100 \<Longrightarrow>
     rematch_loop tn (clean tn) (strip_prefixes name_prefixes (clean tn)) entries matched best =
       (if best < top_score tn entries
        then (first_scoring tn (top_score tn entries) entries, top_score tn entries)
        else (matched, best))"
proof (induction entries arbitrary: matched best)
  case Nil
  then show ?case by simp
next
  case (Cons x rest)
  obtain idx name elem where x: "x = (idx, name, elem)" by (cases x)
  let ?tc = "clean tn"
  let ?tk = "strip_prefixes name_prefixes (clean tn)"
  let ?loop = "rematch_loop tn ?tc ?tk"
  let ?v = "match_score tn name"
  let ?t = "top_score tn rest"
  have ih: "?loop rest m b =
       (if b < ?t then (first_scoring tn ?t rest, ?t) else (m, b))" if "0 \<le> b" "b < 100" for m b
    using Cons.IH[OF that] .
  define A where "A \<longleftrightarrow> tn = name \<or> clean tn = clean name"
  define B where "B \<longleftrightarrow> str_in tn name \<or> str_in name tn"
  define C where "C \<longleftrightarrow> str_in ?tc (clean name) \<or> str_in (clean name) ?tc"
  define D where "D \<longleftrightarrow> length ?tk > 1 \<and> (str_in ?tk (clean name) \<or> str_in (clean name) ?tk)"
  have v: "?v = (if A then 100 else if B then 80 else if C then 70 else if D then 60 else 0)"
    by (simp add: match_score_def A_def B_def C_def D_def)
  have range: "?v = 0 \<or> ?v = 60 \<or> ?v = 70 \<or> ?v = 80 \<or> ?v = 100"
    by (simp add: v)
  have lp: "?loop (x # rest) matched best =
      (if A then (Some (elem, idx), 100)
       else if B then (if best < 80 then ?loop rest (Some (elem, idx)) 80 else ?loop rest matched best)
       else if C then (if best < 70 then ?loop rest (Some (elem, idx)) 70 else ?loop rest matched best)
       else if D then (if best < 60 then ?loop rest (Some (elem, idx)) 60 else ?loop rest matched best)
       else ?loop rest matched best)"
    unfolding x
    by (cases A; cases B; cases C; cases D) (auto simp: Let_def A_def B_def C_def D_def)
  have step: "?loop (x # rest) matched best =
      (if ?v = 100 then (Some (elem, idx), 100)
       else if best < ?v then ?loop rest (Some (elem, idx)) ?v
       else ?loop rest matched best)"
    using Cons.prems by (simp add: v lp)
  have ts: "top_score tn (x # rest) = max ?v ?t" by (simp add: x)
  have fs: "first_scoring tn sc (x # rest) =
      (if ?v = sc then Some (elem, idx) else first_scoring tn sc rest)" for sc
    by (simp add: x)
  have le: "?t \<le> 100" by (induction rest) (auto simp: match_score_def)
  show ?case
  proof (cases "?v = 100")
    case True
    with le show ?thesis using Cons.prems
      by (simp add: step ts fs max_def)
  next
    case False
    with range have lt: "?v < 100" "0 \<le> ?v" by auto
    show ?thesis
    proof (cases "best < ?v")
      case True
      with False Cons.prems lt show ?thesis
        by (simp add: step ts fs ih max_def)
    next
      case nb: False
      with False Cons.prems show ?thesis
        by (auto simp: step ts fs ih max_def)
    qed
  qed
qed

lemma rematch_pick_highest: "rematch ui tn = pick_highest tn (get_indexed_all_elements ui)"
proof -
  have "rematch_loop tn (clean tn) (strip_prefixes name_prefixes (clean tn))
          (get_indexed_all_elements ui) None 0 =
        (if 0 < top_score tn (get_indexed_all_elements ui)
         then (first_scoring tn (top_score tn (get_indexed_all_elements ui)) (get_indexed_all_elements ui),
               top_score tn (get_indexed_all_elements ui))
         else (None, 0))"
    by (rule rematch_loop_pick) simp_all
  then show ?thesis
    by (cases "first_scoring tn (top_score tn (get_indexed_all_elements ui)) (get_indexed_all_elements ui)")
       (auto simp: rematch_def pick_highest_def Let_def)
qed

lemma pick_highest_mem:
  "pick_highest tn (get_indexed_all_elements ui) = Some (m, k) \<Longrightarrow> m \<in> set (elements ui)"
  using rematch_mem[of ui tn m k] by (simp add: rematch_pick_highest)

lemma resolve_step_found:
  assumes "is_click_or_tap (ns_action s)" and "ns_target_index s \<noteq> VNone"
    and "get_element_by_index ui (ns_target_index s) = Some e"
    and "corrected_target ui s e = (e', i')"
  shows "resolve_step ui s =
     s\<lparr>ns_target_index := i',
       ns_parameters := (ns_parameters s)
          \<lparr>p_x := Some (VInt (fst (center_or_origin e'))), p_y := Some (VInt (snd (center_or_origin e')))\<rparr>,
       ns_target := Some (elem_name_of e' i')\<rparr>"
  using assms by (simp add: resolve_step_def Let_def)

lemma execute_tap_coordinates:
  assumes "p_x parameters = Some vx" and "p_y parameters = Some vy"
    and "py_int vx = Some x" and "py_int vy = Some y" and "0 \<le> x" and "0 \<le> y"
  shows "execute_tap ex target parameters els w = device_then_success ex (Tap \<lparr>pt_x = x, pt_y = y\<rparr>) w"
  using assms by (simp add: execute_tap_def tap_at_def Point_new_def)

text \<open>
  C9 (amended): for a tap or click, the target index is consulted first, against the
  snapshot that was used to plan. When it resolves to an element, the decision is aimed
  at the centre of an element of that snapshot, and that centre replaces any explicit
  coordinates of the decision. The element is the indexed one, unless the description
  names, after a full-width colon, a target that the element's name does not contain:
  then it is the entry that the specification's scored matcher picks among the indexed
  entries of the same snapshot (highest score, first among equals, at least 60), with
  its index put in place of the decision's, and the indexed element again when the
  matcher accepts none. When the decision has no index, or the index does not resolve,
  the step is handed over unchanged; the executor then taps the explicit coordinates
  of the parameters directly, and it looks the target text up only when they are
  absent.
\<close>

theorem index_consulted_before_coordinates:
  assumes "is_click_or_tap (ns_action s)"
  shows "(ns_target_index s \<noteq> VNone \<and> get_element_by_index ui (ns_target_index s) = Some e
          \<and> (target_name_from_desc (ns_description s) = None
              \<or> target_name_from_desc (ns_description s) = Some []
              \<or> (\<exists>tn. target_name_from_desc (ns_description s) = Some tn
                      \<and> (str_in tn (elem_name_of e (ns_target_index s))
                          \<or> pick_highest tn (get_indexed_all_elements ui) = None))) \<longrightarrow>
            e \<in> set (elements ui)
            \<and> resolve_step ui s =
                 s\<lparr>ns_parameters := (ns_parameters s)
                      \<lparr>p_x := Some (VInt (fst (center_or_origin e))),
                       p_y := Some (VInt (snd (center_or_origin e)))\<rparr>,
                   ns_target := Some (elem_name_of e (ns_target_index s))\<rparr>)
       \<and> (ns_target_index s \<noteq> VNone \<and> get_element_by_index ui (ns_target_index s) = Some e
          \<and> target_name_from_desc (ns_description s) = Some tn \<and> tn \<noteq> []
          \<and> \<not> str_in tn (elem_name_of e (ns_target_index s))
          \<and> pick_highest tn (get_indexed_all_elements ui) = Some (m, k) \<longrightarrow>
            m \<in> set (elements ui)
            \<and> resolve_step ui s =
                 s\<lparr>ns_target_index := VInt k,
                   ns_parameters := (ns_parameters s)
                      \<lparr>p_x := Some (VInt (fst (center_or_origin m))),
                       p_y := Some (VInt (snd (center_or_origin m)))\<rparr>,
                   ns_target := Some (elem_name_of m (VInt k))\<rparr>)
       \<and> (ns_target_index s = VNone \<or> get_element_by_index ui (ns_target_index s) = None \<longrightarrow>
            resolve_step ui s = s)
       \<and> (p_x parameters = Some vx \<and> p_y parameters = Some vy
          \<and> py_int vx = Some x \<and> py_int vy = Some y \<and> 0 \<le> x \<and> 0 \<le> y \<longrightarrow>
            execute_tap ex target parameters els w =
              device_then_success ex (Tap \<lparr>pt_x = x, pt_y = y\<rparr>) w)"
proof (intro conjI impI)
  assume h: "ns_target_index s \<noteq> VNone \<and> get_element_by_index ui (ns_target_index s) = Some e
          \<and> (target_name_from_desc (ns_description s) = None
              \<or> target_name_from_desc (ns_description s) = Some []
              \<or> (\<exists>tn. target_name_from_desc (ns_description s) = Some tn
                      \<and> (str_in tn (elem_name_of e (ns_target_index s))
                          \<or> pick_highest tn (get_indexed_all_elements ui) = None)))"
  then show "e \<in> set (elements ui)" using get_element_by_index_mem by blast
  from h have "corrected_target ui s e = (e, ns_target_index s)"
    by (auto simp: corrected_target_def rematch_pick_highest split: option.split)
  from resolve_step_found[OF assms _ _ this] h
  show "resolve_step ui s =
                 s\<lparr>ns_parameters := (ns_parameters s)
                      \<lparr>p_x := Some (VInt (fst (center_or_origin e))),
                       p_y := Some (VInt (snd (center_or_origin e)))\<rparr>,
                   ns_target := Some (elem_name_of e (ns_target_index s))\<rparr>"
    by simp
next
  assume h: "ns_target_index s \<noteq> VNone \<and> get_element_by_index ui (ns_target_index s) = Some e
          \<and> target_name_from_desc (ns_description s) = Some tn \<and> tn \<noteq> []
          \<and> \<not> str_in tn (elem_name_of e (ns_target_index s))
          \<and> pick_highest tn (get_indexed_all_elements ui) = Some (m, k)"
  then show "m \<in> set (elements ui)" using pick_highest_mem by blast
  from h have "corrected_target ui s e = (m, VInt k)"
    by (simp add: corrected_target_def rematch_pick_highest)
  from resolve_step_found[OF assms _ _ this] h
  show "resolve_step ui s =
                 s\<lparr>ns_target_index := VInt k,
                   ns_parameters := (ns_parameters s)
                      \<lparr>p_x := Some (VInt (fst (center_or_origin m))),
                       p_y := Some (VInt (snd (center_or_origin m)))\<rparr>,
                   ns_target := Some (elem_name_of m (VInt k))\<rparr>"
    by simp
next
  assume "ns_target_index s = VNone \<or> get_element_by_index ui (ns_target_index s) = None"
  then show "resolve_step ui s = s" by (auto simp: resolve_step_def)
next
  assume "p_x parameters = Some vx \<and> p_y parameters = Some vy
          \<and> py_int vx = Some x \<and> py_int vy = Some y \<and> 0 \<le> x \<and> 0 \<le> y"
  then show "execute_tap ex target parameters els w =
              device_then_success ex (Tap \<lparr>pt_x = x, pt_y = y\<rparr>) w"
    by (simp add: execute_tap_coordinates)
qed

lemma ok_resolved:
  "resolve_step ok_ui (click_at (VInt 1) (VInt 5) (VInt 5)) =
     (click_at (VInt 1) (VInt 100) (VInt 200))\<lparr>ns_target := Some (ascii ''OK'')\<rparr>"
proof -
  have d: "target_name_from_desc (ascii ''click the button'') = None"
    by (simp add: target_name_from_desc_def ascii_def)
  have c: "is_click_or_tap (ascii ''click'')" by (simp add: is_click_or_tap_def)
  show ?thesis
    by (simp add: resolve_step_def click_at_def ok_lookup c corrected_target_def d center_or_origin_def
        elem_name_of_def)
       (simp add: ok_button_def mk_element_def no_params_def ascii_def)
qed

lemma two_indexed:
  "get_indexed_all_elements two_ui = [(1, ascii ''Cancel'', cancel_button), (2, ascii ''OK'', ok_button)]"
  by (simp add: get_indexed_all_elements_def build_indexed_elements_def two_ui_def cancel_button_def
      ok_button_def mk_element_def element_name_def should_include_def is_input_def class_lower_def
      lower_def to_lower_full_def lower_cp_def str_in_def sublist_Cons_right strip_def is_space_def
      shorten_def ascii_def Let_def)

lemma two_lookup: "get_element_by_index two_ui (VInt 1) = Some cancel_button"
  using two_indexed by (simp add: get_element_by_index_def get_indexed_all_elements_def)

lemma renamed_target: "target_name_from_desc (ns_description renamed_click) = Some (ascii ''OK'')"
  by (simp add: target_name_from_desc_def renamed_click_def strip_def is_space_def ascii_def)

lemma two_pick: "pick_highest (ascii ''OK'') (get_indexed_all_elements two_ui) = Some (ok_button, 2)"
  unfolding two_indexed
  by (simp add: pick_highest_def match_score_def clean_def lower_def to_lower_full_def lower_cp_def
      strip_prefixes.simps name_prefixes_def str_in_def sublist_Cons_right ascii_def)

theorem index_consulted_before_coordinates_witness:
  "resolve_step ok_ui (click_at (VInt 1) (VInt 5) (VInt 5))
     = (click_at (VInt 1) (VInt 100) (VInt 200))\<lparr>ns_target := Some (ascii ''OK'')\<rparr>
   \<and> resolve_step two_ui renamed_click
     = renamed_click\<lparr>ns_target_index := VInt 2,
          ns_parameters := no_params\<lparr>p_x := Some (VInt 100), p_y := Some (VInt 200)\<rparr>,
          ns_target := Some (ascii ''OK'')\<rparr>
   \<and> resolve_step ok_ui (click_at VNone (VInt 5) (VInt 5)) = click_at VNone (VInt 5) (VInt 5)
   \<and> execute_tap plain_executor None (ns_parameters (click_at VNone (VInt 5) (VInt 5))) [ok_button] 0 =
        device_then_success plain_executor (Tap \<lparr>pt_x = 5, pt_y = 5\<rparr>) 0"
proof -
  have n: "\<not> str_in (ascii ''OK'') (elem_name_of cancel_button (VInt 1))"
    by (simp add: elem_name_of_def cancel_button_def mk_element_def str_in_def sublist_Cons_right ascii_def)
  have c: "is_click_or_tap (ns_action renamed_click)"
    "is_click_or_tap (ns_action (click_at (VInt 1) (VInt 5) (VInt 5)))"
    "is_click_or_tap (ns_action (click_at VNone (VInt 5) (VInt 5)))"
    by (simp_all add: renamed_click_def click_at_def is_click_or_tap_def)
  have d: "target_name_from_desc (ns_description (click_at i vx vy)) = None" for i vx vy
    by (simp add: click_at_def target_name_from_desc_def ascii_def)
  have r: "ns_target_index renamed_click = VInt 1" by (simp add: renamed_click_def)
  note inst1 = index_consulted_before_coordinates[OF c(2), where ui = ok_ui and e = ok_button
      and tn = "[]" and m = ok_button and k = 0
      and parameters = "ns_parameters (click_at VNone (VInt 5) (VInt 5))"
      and vx = "VInt 5" and vy = "VInt 5" and x = 5 and y = 5
      and ex = plain_executor and target = None and els = "[ok_button]" and w = 0]
  note inst2 = index_consulted_before_coordinates[OF c(1), where ui = two_ui and e = cancel_button
      and tn = "ascii ''OK''" and m = ok_button and k = 2
      and parameters = "ns_parameters (click_at VNone (VInt 5) (VInt 5))"
      and vx = "VInt 5" and vy = "VInt 5" and x = 5 and y = 5
      and ex = plain_executor and target = None and els = "[ok_button]" and w = 0]
  note inst3 = index_consulted_before_coordinates[OF c(3), where ui = ok_ui and e = ok_button
      and tn = "[]" and m = ok_button and k = 0
      and parameters = "ns_parameters (click_at VNone (VInt 5) (VInt 5))"
      and vx = "VInt 5" and vy = "VInt 5" and x = 5 and y = 5
      and ex = plain_executor and target = None and els = "[ok_button]" and w = 0]
  have w1: "resolve_step ok_ui (click_at (VInt 1) (VInt 5) (VInt 5))
     = (click_at (VInt 1) (VInt 100) (VInt 200))\<lparr>ns_target := Some (ascii ''OK'')\<rparr>"
    using inst1 ok_lookup d
    by (simp add: click_at_def no_params_def center_or_origin_def ok_button_def
        mk_element_def elem_name_of_def ascii_def)
  have w2: "resolve_step two_ui renamed_click
     = renamed_click\<lparr>ns_target_index := VInt 2,
          ns_parameters := no_params\<lparr>p_x := Some (VInt 100), p_y := Some (VInt 200)\<rparr>,
          ns_target := Some (ascii ''OK'')\<rparr>"
    using inst2 two_lookup renamed_target two_pick n r
    by (simp add: renamed_click_def no_params_def center_or_origin_def ok_button_def
        mk_element_def elem_name_of_def ascii_def)
  have w3: "resolve_step ok_ui (click_at VNone (VInt 5) (VInt 5)) = click_at VNone (VInt 5) (VInt 5)"
    using inst3 by (simp add: click_at_def)
  have w4: "execute_tap plain_executor None (ns_parameters (click_at VNone (VInt 5) (VInt 5))) [ok_button] 0 =
        device_then_success plain_executor (Tap \<lparr>pt_x = 5, pt_y = 5\<rparr>) 0"
    using inst3 by (simp add: click_at_def)
  show ?thesis using w1 w2 w3 w4 by simp
qed

text \<open>
  C9 as stated fails: a click that carries the explicit coordinates (5, 5) and the
  index 1 is executed as a tap on the centre (100, 200) of element 1, not on (5, 5).
\<close>

theorem explicit_coordinate_counterexample:
  "p_x (ns_parameters (click_at (VInt 1) (VInt 5) (VInt 5))) = Some (VInt 5)
   \<and> p_y (ns_parameters (click_at (VInt 1) (VInt 5) (VInt 5))) = Some (VInt 5)
   \<and> ns_target_index (click_at (VInt 1) (VInt 5) (VInt 5)) = VInt 1
   \<and> snd (snd (executor_execute plain_executor
         (resolve_step ok_ui (click_at (VInt 1) (VInt 5) (VInt 5))) ok_ui 0))
        = [Tap \<lparr>pt_x = 100, pt_y = 200\<rparr>]
   \<and> snd (snd (executor_execute plain_executor
         (resolve_step ok_ui (click_at (VInt 1) (VInt 5) (VInt 5))) ok_ui 0))
        \<noteq> [Tap \<lparr>pt_x = 5, pt_y = 5\<rparr>]"
  unfolding ok_resolved
  by (simp add: Point_new_def executor_execute_def execute_action_def execute_tap_def tap_at_def
      device_then_success_def plain_executor_def click_at_def no_params_def succeeded_def)


end
